theory Spec2Isabelle
  imports
    Complex_Main
    "HOL-Library.Char_ord"
    "HOL-Library.List_Lexorder"
    "HOL-Library.Option_ord"
    "HOL-Library.AList"
begin

section \<open>The project store\<close>

text \<open>
  The engine of TASA (\<^verbatim>\<open>db_act.py\<close>, \<^verbatim>\<open>prog.py\<close>) keeps one SQLite file per project.
  A column of the store holds \<^verbatim>\<open>NULL\<close> or a value of its declared type: a nullable
  \<^verbatim>\<open>TEXT\<close> column is a \<open>string option\<close>, a nullable \<^verbatim>\<open>INTEGER\<close> column an
  \<open>int option\<close>. Strings are byte lists, and SQLite compares \<^verbatim>\<open>TEXT\<close> bytewise
  (collation \<^verbatim>\<open>BINARY\<close>), which is the lexicographic order on \<open>string\<close>. \<^verbatim>\<open>NULL\<close> sorts
  before every value, as \<open>None\<close> does in the order on \<open>option\<close>.
\<close>

datatype sqlval = SNull | SInt int | SText string | SReal rat

text \<open>The table \<^verbatim>\<open>last_run\<close> of \<^verbatim>\<open>create_base_tables\<close>: id, last_sync_timestamp, status.\<close>

record run_log_row =
  run_id :: int
  last_sync_timestamp :: "string option"
  run_status :: "string option"

text \<open>An environment table \<^verbatim>\<open>{project}_{env}\<close> of \<^verbatim>\<open>create_main_env_table\<close>.\<close>

record env_row =
  exp_article_id :: "int option"
  article_id :: int
  "locale" :: "string option"
  title :: "string option"
  tags :: "string option"
  path :: "string option"
  content :: "string option"
  status :: "string option"
  modified_timestamp :: "string option"

text \<open>
  A related table \<^verbatim>\<open>{project}_{env}_{suffix}\<close> is kept with its column names, in the order
  of its \<^verbatim>\<open>CREATE TABLE\<close>, and its rows as value lists in that order: \<^verbatim>\<open>_copy_related_tables\<close>
  reads the column names at run time.
\<close>

record rel_table =
  columns :: "string list"
  rel_rows :: "sqlval list list"

text \<open>
  The store is the catalogue of the file: the run log (absent before the schema is
  created), the staging tables, the environment tables, the triggers and the related
  tables, each kept by name in creation order.
\<close>

record store =
  last_run :: "run_log_row list option"
  staging_tables :: "string list"
  env_tables :: "(string \<times> env_row list) list"
  triggers :: "string list"
  related_tables :: "(string \<times> rel_table) list"

text \<open>Exceptions of the source, as values.\<close>

datatype py_error =
    OperationalError
  | IntegrityError
  | ValueError
  | IndexError
  | KeyError
  | AttributeError
  | UnboundLocalError
  | RuntimeError

text \<open>\<^verbatim>\<open>sqlite3.OperationalError\<close> and \<^verbatim>\<open>sqlite3.IntegrityError\<close> are the subclasses of
  \<^verbatim>\<open>sqlite3.Error\<close> that the statements of the engine raise.\<close>

fun is_sqlite_error :: "py_error \<Rightarrow> bool" where
  "is_sqlite_error OperationalError = True"
| "is_sqlite_error IntegrityError = True"
| "is_sqlite_error _ = False"

section \<open>SQL conditions\<close>

text \<open>
  A condition of a \<^verbatim>\<open>WHERE\<close> clause has three values; \<open>None\<close> is SQL's unknown. A row is
  selected when the condition is true.
\<close>

definition sql_is_null :: "'a option \<Rightarrow> bool option" where
  "sql_is_null x = Some (x = None)"

definition sql_gt :: "string option \<Rightarrow> string option \<Rightarrow> bool option" where
  "sql_gt a b = (case a of None \<Rightarrow> None | Some x \<Rightarrow> (case b of None \<Rightarrow> None | Some y \<Rightarrow> Some (y < x)))"

definition sql_eq :: "'a option \<Rightarrow> 'a option \<Rightarrow> bool option" where
  "sql_eq a b = (case a of None \<Rightarrow> None | Some x \<Rightarrow> (case b of None \<Rightarrow> None | Some y \<Rightarrow> Some (x = y)))"

definition sql_or :: "bool option \<Rightarrow> bool option \<Rightarrow> bool option" where
  "sql_or p q =
     (if p = Some True \<or> q = Some True then Some True
      else if p = Some False \<and> q = Some False then Some False
      else None)"

definition sql_and :: "bool option \<Rightarrow> bool option \<Rightarrow> bool option" where
  "sql_and p q =
     (if p = Some False \<or> q = Some False then Some False
      else if p = Some True \<and> q = Some True then Some True
      else None)"

definition sql_true :: "bool option \<Rightarrow> bool" where
  "sql_true p = (p = Some True)"

section \<open>Push: candidate selection\<close>

text \<open>
  \<^verbatim>\<open>get_last_run_info\<close> (prog.py 15-42): the row of \<^verbatim>\<open>last_run\<close> that comes first under
  \<^verbatim>\<open>ORDER BY last_sync_timestamp DESC LIMIT 1\<close>, its second column parsed when it is a
  string. A missing table raises \<^verbatim>\<open>sqlite3.OperationalError\<close>, which the function does not
  catch. A Python \<^verbatim>\<open>datetime\<close> is represented by the text that \<^verbatim>\<open>sqlite3\<close> binds for it
  (\<^verbatim>\<open>isoformat(" ")\<close>); the parameter \<open>strptime\<close> is
  \<^verbatim>\<open>datetime.strptime(_, "%Y-%m-%d %H:%M:%S")\<close> in that representation, \<open>None\<close> where
  it raises \<^verbatim>\<open>ValueError\<close> (caught: the function returns \<^verbatim>\<open>None\<close>).
\<close>

definition get_last_run_info :: "(string \<Rightarrow> string option) \<Rightarrow> store \<Rightarrow> py_error + string option" where
  "get_last_run_info strptime st =
     (case last_run st of
        None \<Rightarrow> Inl OperationalError
      | Some runs \<Rightarrow>
          (case take 1 (rev (sort_key last_sync_timestamp runs)) of
             [] \<Rightarrow> Inr None
           | last_run_info # _ \<Rightarrow>
               (case last_sync_timestamp last_run_info of
                  None \<Rightarrow> Inr None
                | Some ts \<Rightarrow> Inr (strptime ts))))"

text \<open>The seven columns that \<^verbatim>\<open>fetch_all_records\<close> selects, in the order of its \<^verbatim>\<open>SELECT\<close>.\<close>

type_synonym candidate =
  "int \<times> int option \<times> string option \<times> string option \<times> string option \<times> string option \<times> string option"

definition select_columns :: "env_row \<Rightarrow> candidate" where
  "select_columns r =
     (article_id r, exp_article_id r, locale r, title r, tags r, path r, content r)"

text \<open>
  \<^verbatim>\<open>fetch_all_records\<close> (prog.py 45-72): the rows with
  \<^verbatim>\<open>modified_timestamp IS NULL OR modified_timestamp > ?\<close>, the parameter bound to the
  result of \<^verbatim>\<open>get_last_run_info\<close>. A \<^verbatim>\<open>sqlite3.Error\<close> is caught and gives the empty list.
\<close>

definition is_candidate :: "string option \<Rightarrow> env_row \<Rightarrow> bool" where
  "is_candidate last_sync_datetime r =
     sql_true (sql_or (sql_is_null (modified_timestamp r))
                      (sql_gt (modified_timestamp r) last_sync_datetime))"

definition fetch_all_records ::
  "(string \<Rightarrow> string option) \<Rightarrow> store \<Rightarrow> string \<Rightarrow> py_error + candidate list" where
  "fetch_all_records strptime st env_table_name =
     (case (case get_last_run_info strptime st of
              Inl e \<Rightarrow> Inl e
            | Inr last_sync_datetime \<Rightarrow>
                (case map_of (env_tables st) env_table_name of
                   None \<Rightarrow> Inl OperationalError
                 | Some rows \<Rightarrow>
                     Inr (map select_columns (filter (is_candidate last_sync_datetime) rows)))) of
        Inl e \<Rightarrow> if is_sqlite_error e then Inr [] else Inl e
      | Inr found \<Rightarrow> Inr found)"

section \<open>Messages and results of an operation\<close>

text \<open>
  Every public operation takes a callback for its messages. A message is one f-string of
  the source, kept with the values it interpolates.
\<close>

datatype message =
    DatabaseCreated string
  | ErrorCreatingTables py_error
  | DataCopied
  | CopyError py_error
  | DataSaved int string
  | DatabaseError py_error
  | ErrorFetchingData int string
  | RequestFailed int
  | RecordsInserted int
  | FailedToFetch int int
  | FailedToProcess "int + int" "string option"
  | RecordMessage int string
  | ErrorWhileProcessingRecord py_error
  | FollowUpProcessed int
  | FollowUpFailed int
  | FollowUpError int py_error
  | NoRecordsToProcess
  | AllRecordsProcessed
  | ErrorProcessingRecords py_error

text \<open>
  What a call leaves behind: the committed content of the file, the messages passed to
  the callback, the messages that went to \<^verbatim>\<open>print\<close> because a callee was invoked without
  the callback, whether the connection the call opened was closed again, and the
  exception that left the call, if any.
\<close>

record outcome =
  db_file :: store
  sink :: "message list"
  printed :: "message list"
  conn_closed :: bool
  raised :: "py_error option"

section \<open>Statements on tables\<close>

text \<open>The name of the trigger that \<^verbatim>\<open>create_update_trigger\<close> creates on a table.\<close>

definition trigger_name :: "string \<Rightarrow> string" where
  "trigger_name table_name = ''update_modified_timestamp_'' @ table_name"

text \<open>
  The trigger body, run after an \<^verbatim>\<open>UPDATE\<close> for each updated row:
  \<^verbatim>\<open>UPDATE t SET modified_timestamp = datetime('now') WHERE article_id = NEW.article_id\<close>.
  \<open>updated\<close> holds the \<^verbatim>\<open>article_id\<close>s of the updated rows and \<open>now\<close> the text of
  \<^verbatim>\<open>datetime('now')\<close>. SQLite does not run a trigger from inside itself unless recursive triggers
  are switched on, and the source never does so.
\<close>

definition fire_update_trigger ::
  "store \<Rightarrow> string \<Rightarrow> string \<Rightarrow> int list \<Rightarrow> env_row list \<Rightarrow> env_row list" where
  "fire_update_trigger st table_name now updated rows =
     (if trigger_name table_name \<in> set (triggers st)
      then map (\<lambda>r. if article_id r \<in> set updated
                      then r\<lparr>modified_timestamp := Some now\<rparr> else r) rows
      else rows)"

text \<open>The value of a column in a row of a related table.\<close>

definition col_value :: "string list \<Rightarrow> sqlval list \<Rightarrow> string \<Rightarrow> sqlval" where
  "col_value cols row c = (case map_of (zip cols row) c of None \<Rightarrow> SNull | Some v \<Rightarrow> v)"

text \<open>\<^verbatim>\<open>SELECT cs FROM t WHERE pageId = ?\<close>: an unknown column is an \<^verbatim>\<open>OperationalError\<close>.\<close>

definition select_for_page :: "string list \<Rightarrow> int \<Rightarrow> rel_table \<Rightarrow> py_error + sqlval list list" where
  "select_for_page cs page t =
     (if list_all (\<lambda>c. c \<in> set (columns t)) (''pageId'' # cs)
      then Inr (map (\<lambda>row. map (col_value (columns t) row) cs)
                  (filter (\<lambda>row. col_value (columns t) row ''pageId'' = SInt page) (rel_rows t)))
      else Inl OperationalError)"

text \<open>\<^verbatim>\<open>DELETE FROM t WHERE pageId = ?\<close>.\<close>

definition delete_for_page :: "int \<Rightarrow> rel_table \<Rightarrow> py_error + rel_table" where
  "delete_for_page page t =
     (if ''pageId'' \<in> set (columns t)
      then Inr (t\<lparr>rel_rows := filter (\<lambda>row. col_value (columns t) row ''pageId'' \<noteq> SInt page)
                                  (rel_rows t)\<rparr>)
      else Inl OperationalError)"

text \<open>
  The row that \<^verbatim>\<open>INSERT INTO t (names) ...\<close> builds from the values given for \<open>names\<close>: a
  column that is not named gets \<^verbatim>\<open>NULL\<close>, and of a column named twice SQLite takes the first
  value. A name that is no column of the table is an \<^verbatim>\<open>OperationalError\<close>.
\<close>

definition insert_named :: "string list \<Rightarrow> sqlval list list \<Rightarrow> rel_table \<Rightarrow> py_error + rel_table" where
  "insert_named names new_rows t =
     (if list_all (\<lambda>c. c \<in> set (columns t)) names
      then Inr (t\<lparr>rel_rows := rel_rows t @
                    map (\<lambda>vals. map (col_value names vals) (columns t)) new_rows\<rparr>)
      else Inl OperationalError)"

section \<open>Python helpers\<close>

text \<open>\<^verbatim>\<open>s.split(sep)\<close> for a separator of one character: never the empty list.\<close>

fun split_on :: "char \<Rightarrow> string \<Rightarrow> string list" where
  "split_on sep [] = [[]]"
| "split_on sep (c # cs) =
     (if c = sep then [] # split_on sep cs
      else (case split_on sep cs of [] \<Rightarrow> [[c]] | w # ws \<Rightarrow> (c # w) # ws))"

text \<open>\<^verbatim>\<open>db.replace(".db", "")\<close> of \<^verbatim>\<open>initialize_db_connection\<close>: the base of every table name.\<close>

fun remove_dot_db :: "string \<Rightarrow> string" where
  "remove_dot_db [] = []"
| "remove_dot_db (c # cs) =
     (if take 3 (c # cs) = ''.db'' then remove_dot_db (drop 2 cs) else c # remove_dot_db cs)"

text \<open>A value is false in a Python condition when it is \<^verbatim>\<open>None\<close>, zero or empty.\<close>

definition falsy_text :: "string option \<Rightarrow> bool" where
  "falsy_text x = (x = None \<or> x = Some [])"

definition falsy_int :: "int option \<Rightarrow> bool" where
  "falsy_int x = (x = None \<or> x = Some 0)"

definition and_then :: "'e + 'a \<Rightarrow> ('a \<Rightarrow> 'e + 'b) \<Rightarrow> 'e + 'b" where
  "and_then m f = (case m of Inl e \<Rightarrow> Inl e | Inr x \<Rightarrow> f x)"

section \<open>The remote API\<close>

text \<open>
  The remote end is a parameter of the engine. A call of \<^verbatim>\<open>requests.post\<close> raises before
  there is a response (\<open>NoResponse\<close>: connection refused, timeout), or gives a response that
  \<^verbatim>\<open>raise_for_status\<close> or \<^verbatim>\<open>json\<close> rejects (\<open>BadResponse\<close>), or returns a JSON body. Bodies
  are typed by the GraphQL schema of the API: \<open>None\<close> is an absent key.
\<close>

datatype 'a http = NoResponse | BadResponse | Returned 'a

datatype mutation_type = Create | Update

text \<open>The variables of the page mutations that vary with the row (\<^verbatim>\<open>prepare_record_variables\<close>);
  \<^verbatim>\<open>id\<close> is added for an update.\<close>

record variables =
  v_content :: "string option"
  v_locale :: "string option"
  v_path :: "string option"
  v_tags :: "string list"
  v_title :: "string option"
  v_id :: "int option"

text \<open>\<^verbatim>\<open>result["create"]\<close> or \<^verbatim>\<open>result["update"]\<close>: \<^verbatim>\<open>page.id\<close> and \<^verbatim>\<open>responseResult.message\<close>.\<close>

record page_result =
  page_id :: int
  response_message :: string

text \<open>The body of a page mutation's response: the messages of its \<^verbatim>\<open>errors\<close> array, and
  \<^verbatim>\<open>data.pages\<close> with its \<^verbatim>\<open>create\<close> and \<^verbatim>\<open>update\<close> entries.\<close>

record page_reply =
  errors :: "string option list option"
  pages :: "(page_result option \<times> page_result option) option"

text \<open>The variables of the follow-up mutation, as \<^verbatim>\<open>fetch_related_data\<close> reads them.\<close>

record related_data =
  institutionInput :: "sqlval list list"
  legalActInput :: "sqlval list list"
  pageContactInput :: "sqlval list list"
  relatedPagesInput :: "sqlval list list"
  serviceInput :: "sqlval list list"

text \<open>
  The answer to the read query. An object of a related collection is kept as the list of
  its keys and values; \<^verbatim>\<open>true\<close> and \<^verbatim>\<open>false\<close> are the integers 1 and 0, as Python binds
  them. \<^verbatim>\<open>data.pages.single\<close> carries the page's scalar fields and the titles of its tags
  (\<open>None\<close> for a title that is not a string).
\<close>

type_synonym json_object = "(string \<times> sqlval) list"

record page_data =
  pg_id :: int
  pg_locale :: "string option"
  pg_title :: "string option"
  pg_tags :: "string option list"
  pg_path :: "string option"
  pg_content :: "string option"

record pull_data =
  single :: page_data
  getArvaInstitutionsForPage :: "json_object list"
  getLegalActsForPage :: "json_object list"
  getArvaPageContactForPage :: "json_object list"
  getRelatedPagesForPage :: "json_object list"
  getArvaServicesForPage :: "json_object list"

text \<open>The body of the read query's response: the \<^verbatim>\<open>message\<close> of each entry of \<^verbatim>\<open>errors\<close>
  (\<open>None\<close> for an entry without one), the HTTP status code, and \<^verbatim>\<open>data\<close>.\<close>

record query_reply =
  q_errors :: "string option list option"
  q_status :: int
  q_data :: "pull_data option"

record remote =
  page_mutation :: "mutation_type \<Rightarrow> variables \<Rightarrow> page_reply http"
  follow_up_mutation :: "int \<Rightarrow> related_data \<Rightarrow> bool http"
  page_query :: "int \<Rightarrow> query_reply http"

section \<open>Push\<close>

text \<open>\<^verbatim>\<open>prepare_record_variables\<close> (prog.py 362-389): \<^verbatim>\<open>tags.split(";")\<close> raises
  \<^verbatim>\<open>AttributeError\<close> on a \<^verbatim>\<open>NULL\<close> tags column.\<close>

definition prepare_record_variables :: "candidate \<Rightarrow> py_error + (int \<times> int option \<times> variables)" where
  "prepare_record_variables row =
     (case row of (aid, exp_id, loc, ttl, tgs, pth, cnt) \<Rightarrow>
        (case tgs of
           None \<Rightarrow> Inl AttributeError
         | Some t \<Rightarrow>
             Inr (aid, exp_id,
                  \<lparr>v_content = cnt, v_locale = loc, v_path = pth,
                   v_tags = split_on CHR '';'' t, v_title = ttl, v_id = None\<rparr>)))"

text \<open>
  \<^verbatim>\<open>execute_graphql_mutation\<close> (prog.py 501-538), given what the request met. When
  \<^verbatim>\<open>requests.post\<close> itself raises, the handler reads \<^verbatim>\<open>response.text\<close> of a name that was never
  bound, so the exception that leaves is \<^verbatim>\<open>UnboundLocalError\<close>. The mutation types asked for
  are always keys of the configuration that \<^verbatim>\<open>get_api_config\<close> builds.
\<close>

definition execute_graphql_mutation :: "'a http \<Rightarrow> py_error + 'a" where
  "execute_graphql_mutation response =
     (case response of
        NoResponse \<Rightarrow> Inl UnboundLocalError
      | BadResponse \<Rightarrow> Inl RuntimeError
      | Returned response_data \<Rightarrow> Inr response_data)"

text \<open>
  \<^verbatim>\<open>update_record_status\<close> (prog.py 461-498):
  \<^verbatim>\<open>UPDATE t SET exp_article_id = ?, status = 'succeeded' WHERE path = ? AND locale = ?\<close>,
  after which the trigger runs for every updated row. A missing path or locale is a
  \<^verbatim>\<open>ValueError\<close>; a \<^verbatim>\<open>sqlite3.Error\<close> is raised again as \<^verbatim>\<open>RuntimeError\<close>.
\<close>

definition matches_path_locale :: "string option \<Rightarrow> string option \<Rightarrow> env_row \<Rightarrow> bool" where
  "matches_path_locale p l r = sql_true (sql_and (sql_eq (path r) p) (sql_eq (locale r) l))"

definition update_record_status ::
  "string \<Rightarrow> store \<Rightarrow> string \<Rightarrow> int \<Rightarrow> variables \<Rightarrow> py_error + store" where
  "update_record_status now st env_table_name page variables =
     (if falsy_text (v_path variables) \<or> falsy_text (v_locale variables) then Inl ValueError
      else
        (case map_of (env_tables st) env_table_name of
           None \<Rightarrow> Inl RuntimeError
         | Some rows \<Rightarrow>
             (let hit = matches_path_locale (v_path variables) (v_locale variables);
                  set_rows = map (\<lambda>r. if hit r
                                       then r\<lparr>exp_article_id := Some page,
                                              status := Some ''succeeded''\<rparr>
                                       else r) rows;
                  stamped = fire_update_trigger st env_table_name now
                              (map article_id (filter hit rows)) set_rows
              in Inr (st\<lparr>env_tables := AList.update env_table_name stamped (env_tables st)\<rparr>))))"

text \<open>\<^verbatim>\<open>fetch_related_data\<close> (prog.py 572-684): five \<^verbatim>\<open>SELECT ... WHERE pageId = ?\<close>.\<close>

definition fetch_rows :: "store \<Rightarrow> string \<Rightarrow> string list \<Rightarrow> int \<Rightarrow> py_error + sqlval list list" where
  "fetch_rows st name cs page =
     (case map_of (related_tables st) name of
        None \<Rightarrow> Inl OperationalError
      | Some t \<Rightarrow> select_for_page cs page t)"

definition fetch_related_data :: "store \<Rightarrow> string \<Rightarrow> int \<Rightarrow> py_error + related_data" where
  "fetch_related_data st env_table_name aid =
     and_then (fetch_rows st (env_table_name @ ''_arva_institution'')
                 [''id'', ''name'', ''url'', ''isResponsible''] aid) (\<lambda>institutions.
     and_then (fetch_rows st (env_table_name @ ''_arva_legal_act'')
                 [''title'', ''url'', ''legalActType'', ''globalId'', ''groupId'',
                  ''versionStartDate''] aid) (\<lambda>legal_acts.
     and_then (fetch_rows st (env_table_name @ ''_arva_page_contact'')
                 [''contactId'', ''role'', ''firstName'', ''lastName'', ''company'', ''email'',
                  ''countryCode'', ''nationalNumber''] aid) (\<lambda>contacts.
     and_then (fetch_rows st (env_table_name @ ''_arva_related_pages'')
                 [''id'', ''title'', ''locale''] aid) (\<lambda>related_pages.
     and_then (fetch_rows st (env_table_name @ ''_arva_service'')
                 [''id'', ''name'', ''url''] aid) (\<lambda>services.
     Inr \<lparr>institutionInput = institutions, legalActInput = legal_acts,
          pageContactInput = contacts, relatedPagesInput = related_pages,
          serviceInput = services\<rparr>)))))"

text \<open>
  \<^verbatim>\<open>handle_follow_up_mutation\<close> (prog.py 541-569): its messages, and the exception that it
  does not catch (it catches \<^verbatim>\<open>RuntimeError\<close> only).
\<close>

definition handle_follow_up_mutation :: "bool http \<Rightarrow> int \<Rightarrow> message list \<times> py_error option" where
  "handle_follow_up_mutation response page =
     (case execute_graphql_mutation response of
        Inl e \<Rightarrow> if e = RuntimeError then ([FollowUpError page e], None) else ([], Some e)
      | Inr has_data \<Rightarrow>
          ([if has_data then FollowUpProcessed page else FollowUpFailed page], None))"

text \<open>
  \<^verbatim>\<open>process_record\<close> (prog.py 392-458): one candidate row. Every exception is caught and
  reported, so the result is the store after the row and the messages, in order. \<open>now\<close> is
  the text of \<^verbatim>\<open>datetime('now')\<close> when the row's \<^verbatim>\<open>UPDATE\<close> runs.
\<close>

definition process_record ::
  "remote \<Rightarrow> string \<Rightarrow> store \<Rightarrow> string \<Rightarrow> candidate \<Rightarrow> store \<times> message list" where
  "process_record api now st env_table_name row =
     (case prepare_record_variables row of
        Inl e \<Rightarrow> (st, [ErrorWhileProcessingRecord e])
      | Inr (aid, exp_id, vars) \<Rightarrow>
          (let variables = (if falsy_int exp_id then vars else vars\<lparr>v_id := exp_id\<rparr>);
               response = page_mutation api (if falsy_int exp_id then Create else Update) variables
           in case execute_graphql_mutation response of
                Inl e \<Rightarrow> (st, [ErrorWhileProcessingRecord e])
              | Inr response_data \<Rightarrow>
                  (case errors response_data of
                     Some [] \<Rightarrow> (st, [ErrorWhileProcessingRecord IndexError])
                   | Some (e # _) \<Rightarrow>
                       (st, [FailedToProcess
                               (case exp_id of
                                  None \<Rightarrow> Inl aid
                                | Some n \<Rightarrow> if n = 0 then Inl aid else Inr n) e])
                   | None \<Rightarrow>
                       (case pages response_data of
                          None \<Rightarrow> (st, [ErrorWhileProcessingRecord KeyError])
                        | Some (created, updated) \<Rightarrow>
                            (let said =
                                   (case created of None \<Rightarrow> []
                                    | Some c \<Rightarrow> [RecordMessage (page_id c) (response_message c)]) @
                                   (case updated of None \<Rightarrow> []
                                    | Some u \<Rightarrow> [RecordMessage (page_id u) (response_message u)]);
                                 bound =
                                   (case updated of Some u \<Rightarrow> Some (page_id u)
                                    | None \<Rightarrow> map_option page_id created)
                             in case bound of
                                  None \<Rightarrow> (st, said @ [ErrorWhileProcessingRecord UnboundLocalError])
                                | Some page \<Rightarrow>
                                    (case update_record_status now st env_table_name page variables of
                                       Inl e \<Rightarrow> (st, said @ [ErrorWhileProcessingRecord e])
                                     | Inr st' \<Rightarrow>
                                         (case fetch_related_data st' env_table_name aid of
                                            Inl e \<Rightarrow> (st', said @ [ErrorWhileProcessingRecord e])
                                          | Inr related \<Rightarrow>
                                              (case handle_follow_up_mutation
                                                      (follow_up_mutation api page related) page of
                                                 (ms, None) \<Rightarrow> (st', said @ ms)
                                               | (ms, Some e) \<Rightarrow>
                                                   (st', said @ ms @ [ErrorWhileProcessingRecord e])))))))))"

text \<open>The loop of \<^verbatim>\<open>process_records\<close> over the candidate rows; \<open>clock row\<close> is the time at
  which the row's update runs.\<close>

fun process_rows ::
  "remote \<Rightarrow> (candidate \<Rightarrow> string) \<Rightarrow> string \<Rightarrow> candidate list \<Rightarrow> store \<Rightarrow> store \<times> message list" where
  "process_rows api clock env_table_name [] st = (st, [])"
| "process_rows api clock env_table_name (row # rows) st =
     (case process_record api (clock row) st env_table_name row of
        (st', ms) \<Rightarrow>
          (case process_rows api clock env_table_name rows st' of
             (st'', ms') \<Rightarrow> (st'', ms @ ms')))"

text \<open>The name \<^verbatim>\<open>f"{table_name}_{env}"\<close> of an environment table, \<^verbatim>\<open>table_name\<close> being the
  base name that \<^verbatim>\<open>initialize_db_connection\<close> derives from the file name.\<close>

definition env_table_of :: "string \<Rightarrow> string \<Rightarrow> string" where
  "env_table_of db env = remove_dot_db db @ ''_'' @ env"

text \<open>
  \<^verbatim>\<open>process_records\<close> (prog.py 753-795): the push of one environment. \<^verbatim>\<open>get_api_config\<close>
  raises \<^verbatim>\<open>ValueError\<close> for an empty token or URL. The updates of all rows are committed
  once, after the loop; the connection is closed in the \<^verbatim>\<open>finally\<close> clause.
\<close>

definition process_records ::
  "remote \<Rightarrow> (string \<Rightarrow> string option) \<Rightarrow> (candidate \<Rightarrow> string) \<Rightarrow>
   string \<Rightarrow> string \<Rightarrow> string \<Rightarrow> string \<Rightarrow> store \<Rightarrow> outcome" where
  "process_records api strptime clock db env bearer_token graphql_url st =
     (let env_table_name = env_table_of db env in
      if bearer_token = [] \<or> graphql_url = []
      then \<lparr>db_file = st, sink = [ErrorProcessingRecords ValueError], printed = [],
            conn_closed = True, raised = None\<rparr>
      else
        (case fetch_all_records strptime st env_table_name of
           Inl e \<Rightarrow> \<lparr>db_file = st, sink = [ErrorProcessingRecords e], printed = [],
                     conn_closed = True, raised = None\<rparr>
         | Inr rows \<Rightarrow>
             if rows = []
             then \<lparr>db_file = st, sink = [NoRecordsToProcess], printed = [],
                   conn_closed = True, raised = None\<rparr>
             else
               (case process_rows api clock env_table_name rows st of
                  (st', ms) \<Rightarrow>
                    \<lparr>db_file = st', sink = ms @ [AllRecordsProcessed], printed = [],
                     conn_closed = True, raised = None\<rparr>)))"

section \<open>Pull\<close>

text \<open>\<^verbatim>\<open>sep.join(parts)\<close>.\<close>

fun join_with :: "string \<Rightarrow> string list \<Rightarrow> string" where
  "join_with sep [] = []"
| "join_with sep [w] = w"
| "join_with sep (w # v # ws) = w @ sep @ join_with sep (v # ws)"

text \<open>A statement on one related table of the store; a table that does not exist is an
  \<^verbatim>\<open>OperationalError\<close>.\<close>

definition on_related ::
  "store \<Rightarrow> string \<Rightarrow> (rel_table \<Rightarrow> py_error + rel_table) \<Rightarrow> py_error + store" where
  "on_related st name statement =
     (case map_of (related_tables st) name of
        None \<Rightarrow> Inl OperationalError
      | Some t \<Rightarrow>
          and_then (statement t)
            (\<lambda>t'. Inr (st\<lparr>related_tables := AList.update name t' (related_tables st)\<rparr>)))"

text \<open>
  \<^verbatim>\<open>_insert_page_data\<close> (prog.py 139-169): \<^verbatim>\<open>INSERT ... ON CONFLICT(article_id) DO UPDATE\<close>.
  A new row has \<^verbatim>\<open>NULL\<close> in the three columns that are not named. On a conflict the
  five named columns of the existing row are overwritten, and this update runs the
  \<^verbatim>\<open>AFTER UPDATE\<close> trigger. Returns the store and \<^verbatim>\<open>page_data["id"]\<close>.
\<close>

definition insert_page_data ::
  "string \<Rightarrow> store \<Rightarrow> string \<Rightarrow> page_data \<Rightarrow> py_error + (store \<times> int)" where
  "insert_page_data now st env_table_name page =
     (let joined = join_with '';'' (concat (map (\<lambda>t. case t of None \<Rightarrow> [] | Some w \<Rightarrow> [w])
                                               (pg_tags page)))
      in case map_of (env_tables st) env_table_name of
           None \<Rightarrow> Inl OperationalError
         | Some rows \<Rightarrow>
             (let rows' =
                (if pg_id page \<in> set (map article_id rows)
                 then fire_update_trigger st env_table_name now [pg_id page]
                        (map (\<lambda>r. if article_id r = pg_id page
                                  then r\<lparr>locale := pg_locale page, title := pg_title page,
                                         tags := Some joined, path := pg_path page,
                                         content := pg_content page\<rparr>
                                  else r) rows)
                 else rows @ [\<lparr>exp_article_id = None, article_id = pg_id page,
                               locale = pg_locale page, title = pg_title page,
                               tags = Some joined, path = pg_path page,
                               content = pg_content page, status = None,
                               modified_timestamp = None\<rparr>])
              in Inr (st\<lparr>env_tables := AList.update env_table_name rows' (env_tables st)\<rparr>,
                      pg_id page)))"

text \<open>The suffixes of the five related tables, in the order in which every function of
  the source lists them.\<close>

definition related_suffixes :: "string list" where
  "related_suffixes =
     [''arva_institution'', ''arva_legal_act'', ''arva_page_contact'', ''arva_related_pages'',
      ''arva_service'']"

text \<open>\<^verbatim>\<open>_delete_records\<close> (prog.py 118-136): \<^verbatim>\<open>DELETE FROM t WHERE pageId = ?\<close> on each of the
  five related tables.\<close>

fun delete_from :: "string list \<Rightarrow> int \<Rightarrow> store \<Rightarrow> py_error + store" where
  "delete_from [] page st = Inr st"
| "delete_from (table # tables) page st =
     and_then (on_related st table (delete_for_page page)) (delete_from tables page)"

definition delete_records :: "store \<Rightarrow> string \<Rightarrow> int \<Rightarrow> py_error + store" where
  "delete_records st env_table_name aid =
     delete_from (map (\<lambda>suffix. env_table_name @ ''_'' @ suffix) related_suffixes) aid st"

text \<open>
  The parameters of one \<^verbatim>\<open>INSERT\<close> of a related row: a value of the object (a missing key is
  a \<^verbatim>\<open>KeyError\<close>), the page id, or \<^verbatim>\<open>bool(...)\<close> of a value of the object.
\<close>

datatype param = FromKey string | PageId | BoolOf string

definition item_get :: "json_object \<Rightarrow> string \<Rightarrow> py_error + sqlval" where
  "item_get item k = (case map_of item k of None \<Rightarrow> Inl KeyError | Some v \<Rightarrow> Inr v)"

fun py_bool :: "sqlval \<Rightarrow> bool" where
  "py_bool SNull = False"
| "py_bool (SInt n) = (n \<noteq> 0)"
| "py_bool (SText w) = (w \<noteq> [])"
| "py_bool (SReal x) = (x \<noteq> 0)"

fun bind_params :: "json_object \<Rightarrow> int \<Rightarrow> param list \<Rightarrow> py_error + sqlval list" where
  "bind_params item page [] = Inr []"
| "bind_params item page (q # qs) =
     and_then (case q of
                 FromKey k \<Rightarrow> item_get item k
               | PageId \<Rightarrow> Inr (SInt page)
               | BoolOf k \<Rightarrow>
                   and_then (item_get item k) (\<lambda>v. Inr (SInt (if py_bool v then 1 else 0))))
       (\<lambda>v. and_then (bind_params item page qs) (\<lambda>vs. Inr (v # vs)))"

text \<open>The loop of an \<^verbatim>\<open>_insert_arva_...\<close> function: one \<^verbatim>\<open>INSERT INTO t (names) VALUES (...)\<close>
  for each object of the collection.\<close>

fun insert_items ::
  "string \<Rightarrow> string list \<Rightarrow> param list \<Rightarrow> int \<Rightarrow> json_object list \<Rightarrow> store \<Rightarrow> py_error + store" where
  "insert_items table names params page [] st = Inr st"
| "insert_items table names params page (item # items) st =
     and_then (bind_params item page params)
       (\<lambda>vals. and_then (on_related st table (insert_named names [vals]))
                  (insert_items table names params page items))"

definition insert_arva_institution :: "store \<Rightarrow> string \<Rightarrow> int \<Rightarrow> pull_data \<Rightarrow> py_error + store" where
  "insert_arva_institution st env_table_name page response_data =
     insert_items (env_table_name @ ''_arva_institution'')
       [''id'', ''pageId'', ''name'', ''url'', ''isResponsible'']
       [FromKey ''id'', PageId, FromKey ''name'', FromKey ''url'', BoolOf ''isResponsible'']
       page (getArvaInstitutionsForPage response_data) st"

definition insert_arva_legal_act :: "store \<Rightarrow> string \<Rightarrow> int \<Rightarrow> pull_data \<Rightarrow> py_error + store" where
  "insert_arva_legal_act st env_table_name page response_data =
     insert_items (env_table_name @ ''_arva_legal_act'')
       [''id'', ''pageId'', ''title'', ''url'', ''legalActType'', ''globalId'', ''groupId'',
        ''versionStartDate'']
       [FromKey ''id'', PageId, FromKey ''title'', FromKey ''url'', FromKey ''legalActType'',
        FromKey ''globalId'', FromKey ''groupId'', FromKey ''versionStartDate'']
       page (getLegalActsForPage response_data) st"

definition insert_arva_page_contact :: "store \<Rightarrow> string \<Rightarrow> int \<Rightarrow> pull_data \<Rightarrow> py_error + store" where
  "insert_arva_page_contact st env_table_name page response_data =
     insert_items (env_table_name @ ''_arva_page_contact'')
       [''id'', ''contactId'', ''pageId'', ''role'', ''firstName'', ''lastName'', ''company'',
        ''email'', ''countryCode'', ''nationalNumber'']
       [FromKey ''id'', FromKey ''contactId'', PageId, FromKey ''role'', FromKey ''firstName'',
        FromKey ''lastName'', FromKey ''company'', FromKey ''email'', FromKey ''countryCode'',
        FromKey ''nationalNumber'']
       page (getArvaPageContactForPage response_data) st"

definition insert_arva_related_pages :: "store \<Rightarrow> string \<Rightarrow> int \<Rightarrow> pull_data \<Rightarrow> py_error + store" where
  "insert_arva_related_pages st env_table_name page response_data =
     insert_items (env_table_name @ ''_arva_related_pages'')
       [''id'', ''pageId'', ''title'', ''locale'']
       [FromKey ''id'', PageId, FromKey ''title'', FromKey ''locale'']
       page (getRelatedPagesForPage response_data) st"

definition insert_arva_service :: "store \<Rightarrow> string \<Rightarrow> int \<Rightarrow> pull_data \<Rightarrow> py_error + store" where
  "insert_arva_service st env_table_name page response_data =
     insert_items (env_table_name @ ''_arva_service'')
       [''id'', ''pageId'', ''name'', ''url'']
       [FromKey ''id'', PageId, FromKey ''name'', FromKey ''url'']
       page (getArvaServicesForPage response_data) st"

text \<open>The statements of \<^verbatim>\<open>insert_arva_records\<close> inside its \<^verbatim>\<open>try\<close>, up to the commit.\<close>

definition insert_statements ::
  "string \<Rightarrow> store \<Rightarrow> string \<Rightarrow> pull_data \<Rightarrow> py_error + (store \<times> int)" where
  "insert_statements now st env_table_name response_data =
     and_then (insert_page_data now st env_table_name (single response_data)) (\<lambda>(st1, page).
     and_then (delete_records st1 env_table_name page) (\<lambda>st2.
     and_then (insert_arva_institution st2 env_table_name page response_data) (\<lambda>st3.
     and_then (insert_arva_legal_act st3 env_table_name page response_data) (\<lambda>st4.
     and_then (insert_arva_page_contact st4 env_table_name page response_data) (\<lambda>st5.
     and_then (insert_arva_related_pages st5 env_table_name page response_data) (\<lambda>st6.
     and_then (insert_arva_service st6 env_table_name page response_data) (\<lambda>st7.
     Inr (st7, page))))))))"

text \<open>
  \<^verbatim>\<open>insert_arva_records\<close> (prog.py 75-115). The statements are committed together at the
  end. A \<^verbatim>\<open>sqlite3.Error\<close> is reported to the callback, any other exception leaves the
  function; in both cases nothing was committed, and the \<^verbatim>\<open>finally\<close> clause closes the
  connection, which discards the statements made so far.
\<close>

definition insert_arva_records :: "string \<Rightarrow> string \<Rightarrow> string \<Rightarrow> pull_data \<Rightarrow> store \<Rightarrow> outcome" where
  "insert_arva_records now db env response_data st =
     (case insert_statements now st (env_table_of db env) response_data of
        Inr (st', page) \<Rightarrow>
          \<lparr>db_file = st', sink = [DataSaved page env], printed = [], conn_closed = True,
           raised = None\<rparr>
      | Inl e \<Rightarrow>
          if is_sqlite_error e
          then \<lparr>db_file = st, sink = [DatabaseError e], printed = [], conn_closed = True,
                raised = None\<rparr>
          else \<lparr>db_file = st, sink = [], printed = [], conn_closed = True, raised = Some e\<rparr>)"

text \<open>
  \<^verbatim>\<open>int(s.strip())\<close> for a string of ASCII characters: optional sign, then decimal digits,
  where single underscores may stand between digits. Anything else is a \<^verbatim>\<open>ValueError\<close>.
\<close>

definition is_space :: "char \<Rightarrow> bool" where
  "is_space c = (let n = (of_char c :: nat) in n = 32 \<or> (9 \<le> n \<and> n \<le> 13) \<or> (28 \<le> n \<and> n \<le> 31))"

definition is_digit :: "char \<Rightarrow> bool" where
  "is_digit c = (let n = (of_char c :: nat) in 48 \<le> n \<and> n \<le> 57)"

definition py_strip :: "string \<Rightarrow> string" where
  "py_strip w = rev (dropWhile is_space (rev (dropWhile is_space w)))"

definition digits_value :: "string \<Rightarrow> py_error + nat" where
  "digits_value w =
     (let groups = split_on CHR ''_'' w in
      if list_all (\<lambda>g. g \<noteq> [] \<and> list_all is_digit g) groups
      then Inr (foldl (\<lambda>n c. 10 * n + (of_char c - 48)) 0 (concat groups))
      else Inl ValueError)"

definition py_int :: "string \<Rightarrow> py_error + int" where
  "py_int w =
     (case py_strip w of
        [] \<Rightarrow> Inl ValueError
      | c # cs \<Rightarrow>
          if c = CHR ''-'' then and_then (digits_value cs) (\<lambda>n. Inr (- int n))
          else if c = CHR ''+'' then and_then (digits_value cs) (\<lambda>n. Inr (int n))
          else and_then (digits_value (c # cs)) (\<lambda>n. Inr (int n)))"

text \<open>\<^verbatim>\<open>[int(id.strip()) for id in article_ids.split(",")]\<close>: the whole list is built before
  the first request is made.\<close>

fun parse_all :: "string list \<Rightarrow> py_error + int list" where
  "parse_all [] = Inr []"
| "parse_all (w # ws) =
     and_then (py_int (py_strip w)) (\<lambda>n. and_then (parse_all ws) (\<lambda>ns. Inr (n # ns)))"

definition parse_article_ids :: "string \<Rightarrow> py_error + int list" where
  "parse_article_ids article_ids = parse_all (split_on CHR '','' article_ids)"

text \<open>The text that \<^verbatim>\<open>error.get("message", "Unknown error")\<close> gives for an entry of
  \<^verbatim>\<open>errors\<close>.\<close>

definition error_message :: "string option \<Rightarrow> string" where
  "error_message e = (case e of None \<Rightarrow> ''Unknown error'' | Some text \<Rightarrow> text)"

text \<open>
  The body of the loop of \<^verbatim>\<open>get_arva_records\<close> (prog.py 320-359) for one identifier. The
  messages of \<^verbatim>\<open>errors\<close> are collected in a set and reported once each; the order in which
  a Python set is iterated is not specified, and the model reports them in the order of
  their first occurrence. \<^verbatim>\<open>insert_arva_records\<close> is called without the callback: its
  messages go to \<^verbatim>\<open>print\<close>.
\<close>

definition pull_one :: "remote \<Rightarrow> (int \<Rightarrow> string) \<Rightarrow> string \<Rightarrow> string \<Rightarrow> int \<Rightarrow> store \<Rightarrow> outcome" where
  "pull_one api clock db env aid st =
     (case page_query api aid of
        Returned response_data \<Rightarrow>
          (case q_errors response_data of
             Some errs \<Rightarrow>
               \<lparr>db_file = st,
                sink = map (ErrorFetchingData aid) (remdups (map error_message errs)),
                printed = [], conn_closed = True, raised = None\<rparr>
           | None \<Rightarrow>
               (case q_data response_data of
                  Some d \<Rightarrow>
                    if q_status response_data = 200
                    then (let saved = insert_arva_records (clock aid) db env d st in
                          if raised saved = None
                          then \<lparr>db_file = db_file saved, sink = [RecordsInserted aid],
                                printed = sink saved, conn_closed = conn_closed saved,
                                raised = None\<rparr>
                          else \<lparr>db_file = db_file saved, sink = [], printed = sink saved,
                                conn_closed = conn_closed saved, raised = raised saved\<rparr>)
                    else \<lparr>db_file = st, sink = [FailedToFetch aid (q_status response_data)],
                          printed = [], conn_closed = True, raised = None\<rparr>
                | None \<Rightarrow>
                    \<lparr>db_file = st, sink = [FailedToFetch aid (q_status response_data)],
                     printed = [], conn_closed = True, raised = None\<rparr>))
      | _ \<Rightarrow> \<lparr>db_file = st, sink = [RequestFailed aid], printed = [], conn_closed = True,
               raised = None\<rparr>)"

fun pull_loop :: "remote \<Rightarrow> (int \<Rightarrow> string) \<Rightarrow> string \<Rightarrow> string \<Rightarrow> int list \<Rightarrow> store \<Rightarrow> outcome" where
  "pull_loop api clock db env [] st =
     \<lparr>db_file = st, sink = [], printed = [], conn_closed = True, raised = None\<rparr>"
| "pull_loop api clock db env (aid # ids) st =
     (let this = pull_one api clock db env aid st in
      if raised this = None
      then (let rest = pull_loop api clock db env ids (db_file this) in
            rest\<lparr>sink := sink this @ sink rest, printed := printed this @ printed rest,
                 conn_closed := (conn_closed this \<and> conn_closed rest)\<rparr>)
      else this)"

text \<open>\<^verbatim>\<open>get_arva_records\<close> (prog.py 299-359); \<^verbatim>\<open>db\<close> and \<^verbatim>\<open>env\<close> are the entries of
  \<^verbatim>\<open>config\<close> that reach the store.\<close>

definition get_arva_records ::
  "remote \<Rightarrow> (int \<Rightarrow> string) \<Rightarrow> string \<Rightarrow> string \<Rightarrow> string \<Rightarrow> store \<Rightarrow> outcome" where
  "get_arva_records api clock db env article_ids st =
     (case parse_article_ids article_ids of
        Inl e \<Rightarrow> \<lparr>db_file = st, sink = [], printed = [], conn_closed = True, raised = Some e\<rparr>
      | Inr ids \<Rightarrow> pull_loop api clock db env ids st)"

section \<open>Schema creation\<close>

text \<open>\<^verbatim>\<open>CREATE TABLE IF NOT EXISTS\<close>: a table of that name is left as it is.\<close>

definition create_if_absent :: "string \<Rightarrow> 'a \<Rightarrow> (string \<times> 'a) list \<Rightarrow> (string \<times> 'a) list" where
  "create_if_absent name fresh tables =
     (case map_of tables name of None \<Rightarrow> tables @ [(name, fresh)] | Some _ \<Rightarrow> tables)"

definition add_if_absent :: "string \<Rightarrow> string list \<Rightarrow> string list" where
  "add_if_absent name names = (if name \<in> set names then names else names @ [name])"

text \<open>
  \<^verbatim>\<open>create_base_tables\<close> (db_act.py 66-88): the run log is created if it is absent, and a
  row with the current time and the status \<^verbatim>\<open>initial\<close> is inserted. The id is the next
  \<^verbatim>\<open>AUTOINCREMENT\<close> value.
\<close>

definition create_base_tables :: "string \<Rightarrow> store \<Rightarrow> store" where
  "create_base_tables now st =
     (let runs = (case last_run st of None \<Rightarrow> [] | Some rs \<Rightarrow> rs) in
      st\<lparr>last_run := Some (runs @ [\<lparr>run_id = foldr max (map run_id runs) 0 + 1,
                                     last_sync_timestamp = Some now,
                                     run_status = Some ''initial''\<rparr>])\<rparr>)"

definition create_initial_table :: "store \<Rightarrow> string \<Rightarrow> store" where
  "create_initial_table st table_name =
     st\<lparr>staging_tables := add_if_absent (table_name @ ''_initial'') (staging_tables st)\<rparr>"

definition create_main_env_table :: "store \<Rightarrow> string \<Rightarrow> store" where
  "create_main_env_table st table_name =
     st\<lparr>env_tables := create_if_absent table_name [] (env_tables st)\<rparr>"

definition create_update_trigger :: "store \<Rightarrow> string \<Rightarrow> store" where
  "create_update_trigger st table_name =
     st\<lparr>triggers := add_if_absent (trigger_name table_name) (triggers st)\<rparr>"

text \<open>The columns of the five related tables, as \<^verbatim>\<open>create_related_tables\<close> declares them.\<close>

definition related_schemas :: "(string \<times> string list) list" where
  "related_schemas =
     [(''arva_institution'', [''id'', ''pageId'', ''name'', ''url'', ''isResponsible'']),
      (''arva_legal_act'', [''id'', ''pageId'', ''title'', ''url'', ''legalActType'', ''globalId'',
                           ''groupId'', ''versionStartDate'']),
      (''arva_page_contact'', [''id'', ''contactId'', ''pageId'', ''role'', ''firstName'',
                              ''lastName'', ''company'', ''email'', ''countryCode'',
                              ''nationalNumber'']),
      (''arva_related_pages'', [''id'', ''pageId'', ''title'', ''locale'']),
      (''arva_service'', [''id'', ''pageId'', ''name'', ''url''])]"

definition create_related_tables :: "store \<Rightarrow> string \<Rightarrow> store" where
  "create_related_tables st table_name =
     foldl (\<lambda>s (table_suffix, schema).
              s\<lparr>related_tables :=
                  create_if_absent (table_name @ ''_'' @ table_suffix)
                    \<lparr>columns = schema, rel_rows = []\<rparr> (related_tables s)\<rparr>)
       st related_schemas"

definition create_env_tables :: "store \<Rightarrow> string \<Rightarrow> store" where
  "create_env_tables st table_name =
     foldl (\<lambda>s env.
              create_related_tables
                (create_update_trigger (create_main_env_table s (table_name @ env))
                   (table_name @ env))
                (table_name @ env))
       st [''_dev'', ''_test'', ''_prod'']"

text \<open>
  \<^verbatim>\<open>create_db\<close> (db_act.py 43-63). Every statement creates only what is absent, and the
  insert into the run log names its columns, so on a store of this shape no statement
  raises and the commit is reached. \<open>now\<close> is the text of \<^verbatim>\<open>datetime('now')\<close>.
\<close>

definition create_db :: "string \<Rightarrow> string \<Rightarrow> store \<Rightarrow> outcome" where
  "create_db db now st =
     (let table_name = remove_dot_db db in
      \<lparr>db_file = create_env_tables
                   (create_initial_table (create_base_tables now st) table_name) table_name,
       sink = [DatabaseCreated db], printed = [], conn_closed = True, raised = None\<rparr>)"

section \<open>Copy between environments\<close>

text \<open>
  \<^verbatim>\<open>_copy_main_table\<close> (db_act.py 278-299):
  \<^verbatim>\<open>INSERT INTO target (article_id, locale, title, tags, path, content) SELECT ... FROM source\<close>.
  \<^verbatim>\<open>article_id\<close> is the primary key of the target: a value that the target already holds,
  or that the selection holds twice, fails the statement with an \<^verbatim>\<open>IntegrityError\<close>, and a
  failed statement inserts nothing.
\<close>

definition copy_main_table :: "store \<Rightarrow> string \<Rightarrow> string \<Rightarrow> string \<Rightarrow> py_error + store" where
  "copy_main_table st table_name source_env target_env =
     (let source_table = table_name @ ''_'' @ source_env;
          target_table = table_name @ ''_'' @ target_env
      in case map_of (env_tables st) source_table of
           None \<Rightarrow> Inl OperationalError
         | Some source_rows \<Rightarrow>
             (case map_of (env_tables st) target_table of
                None \<Rightarrow> Inl OperationalError
              | Some target_rows \<Rightarrow>
                  (let selected =
                         map (\<lambda>r. \<lparr>exp_article_id = None, article_id = article_id r,
                                    locale = locale r, title = title r, tags = tags r,
                                    path = path r, content = content r, status = None,
                                    modified_timestamp = None\<rparr>) source_rows
                   in if list_ex (\<lambda>r. article_id r \<in> set (map article_id target_rows)) selected
                         \<or> \<not> distinct (map article_id selected)
                      then Inl IntegrityError
                      else Inr (st\<lparr>env_tables :=
                                     AList.update target_table (target_rows @ selected)
                                       (env_tables st)\<rparr>))))"

text \<open>
  One round of the loop of \<^verbatim>\<open>_copy_related_tables\<close> (db_act.py 302-335). The column names
  are those of the source table from the third on (\<^verbatim>\<open>PRAGMA table_info\<close>, \<^verbatim>\<open>[2:]\<close>); for a
  table that does not exist, or has no third column, the list is empty and the statement
  built from it is not valid SQL. Then
  \<^verbatim>\<open>INSERT INTO target (id, pageId, names) SELECT id, pageId, names FROM source\<close>.
\<close>

definition copy_related_table :: "store \<Rightarrow> string \<Rightarrow> string \<Rightarrow> string \<Rightarrow> string \<Rightarrow> py_error + store" where
  "copy_related_table st table_name source_env target_env related_table =
     (let source_related_table = table_name @ ''_'' @ source_env @ ''_'' @ related_table;
          target_related_table = table_name @ ''_'' @ target_env @ ''_'' @ related_table
      in case map_of (related_tables st) source_related_table of
           None \<Rightarrow> Inl OperationalError
         | Some source \<Rightarrow>
             (let column_names = drop 2 (columns source);
                  selection = ''id'' # ''pageId'' # column_names
              in if column_names = [] \<or> \<not> list_all (\<lambda>c. c \<in> set (columns source)) selection
                 then Inl OperationalError
                 else on_related st target_related_table
                        (insert_named selection
                           (map (\<lambda>row. map (col_value (columns source) row) selection)
                              (rel_rows source)))))"

fun copy_related_tables ::
  "store \<Rightarrow> string \<Rightarrow> string \<Rightarrow> string \<Rightarrow> string list \<Rightarrow> py_error + store" where
  "copy_related_tables st table_name source_env target_env [] = Inr st"
| "copy_related_tables st table_name source_env target_env (related_table # others) =
     and_then (copy_related_table st table_name source_env target_env related_table)
       (\<lambda>st'. copy_related_tables st' table_name source_env target_env others)"

text \<open>
  \<^verbatim>\<open>copy_table\<close> (db_act.py 242-275). The function has no \<^verbatim>\<open>finally\<close> clause and never calls
  \<^verbatim>\<open>close\<close>: the connection it opened is still open when it returns. After a
  \<^verbatim>\<open>sqlite3.Error\<close> nothing is committed.
\<close>

definition copy_table :: "string \<Rightarrow> string \<Rightarrow> string \<Rightarrow> store \<Rightarrow> outcome" where
  "copy_table db source_env target_env st =
     (let table_name = remove_dot_db db in
      case and_then (copy_main_table st table_name source_env target_env)
             (\<lambda>st'. copy_related_tables st' table_name source_env target_env related_suffixes) of
        Inr st' \<Rightarrow>
          \<lparr>db_file = st', sink = [DataCopied], printed = [], conn_closed = False, raised = None\<rparr>
      | Inl e \<Rightarrow>
          if is_sqlite_error e
          then \<lparr>db_file = st, sink = [CopyError e], printed = [], conn_closed = False,
                raised = None\<rparr>
          else \<lparr>db_file = st, sink = [], printed = [], conn_closed = False, raised = Some e\<rparr>)"

section \<open>Repeated scans\<close>

text \<open>
  Row \<open>i\<close> of an environment table has the key \<open>a\<close> and a \<^verbatim>\<open>modified_timestamp\<close> later
  than \<open>T\<close>, and the table has its update trigger.
\<close>

definition stamped_since :: "string \<Rightarrow> string \<Rightarrow> nat \<Rightarrow> int \<Rightarrow> store \<Rightarrow> bool" where
  "stamped_since T table_name i a st =
     (trigger_name table_name \<in> set (triggers st) \<and>
      (case map_of (env_tables st) table_name of
         None \<Rightarrow> False
       | Some rows \<Rightarrow>
           i < length rows \<and> article_id (rows ! i) = a \<and>
           (case modified_timestamp (rows ! i) of None \<Rightarrow> False | Some m \<Rightarrow> T < m)))"

text \<open>\<open>n\<close> calls of \<^verbatim>\<open>process_records\<close> on the same file, one after the other; call \<open>k\<close> meets the
  remote end \<open>apis k\<close> and the clock \<open>clocks k\<close>.\<close>

fun push_scans ::
  "(nat \<Rightarrow> remote) \<Rightarrow> (string \<Rightarrow> string option) \<Rightarrow> (nat \<Rightarrow> candidate \<Rightarrow> string) \<Rightarrow>
   string \<Rightarrow> string \<Rightarrow> string \<Rightarrow> string \<Rightarrow> nat \<Rightarrow> store \<Rightarrow> store" where
  "push_scans apis strptime clocks db env bearer_token graphql_url 0 st = st"
| "push_scans apis strptime clocks db env bearer_token graphql_url (Suc n) st =
     db_file (process_records (apis n) strptime (clocks n) db env bearer_token graphql_url
                (push_scans apis strptime clocks db env bearer_token graphql_url n st))"

section \<open>Example data\<close>

text \<open>A project \<^verbatim>\<open>p\<close> whose schema was created at \<^verbatim>\<open>2024-01-01 00:00:00\<close>, with three rows
  in its \<^verbatim>\<open>dev\<close> table: never stamped, stamped before the run log entry, stamped after it.\<close>

definition row_a :: env_row where
  "row_a = \<lparr>exp_article_id = None, article_id = 1, locale = Some ''en'', title = Some ''A'',
             tags = Some ''x;y'', path = Some ''/a'', content = Some ''text a'',
             status = None, modified_timestamp = None\<rparr>"

definition row_b :: env_row where
  "row_b = \<lparr>exp_article_id = Some 7, article_id = 2, locale = Some ''en'', title = Some ''B'',
             tags = Some [], path = Some ''/b'', content = Some ''text b'',
             status = Some ''succeeded'', modified_timestamp = Some ''2023-12-31 23:59:59''\<rparr>"

definition row_c :: env_row where
  "row_c = \<lparr>exp_article_id = Some 8, article_id = 3, locale = Some ''et'', title = Some ''C'',
             tags = Some ''z'', path = Some ''/c'', content = Some ''text c'',
             status = Some ''succeeded'', modified_timestamp = Some ''2024-01-02 10:00:00''\<rparr>"

definition initial_run :: run_log_row where
  "initial_run = \<lparr>run_id = 1, last_sync_timestamp = Some ''2024-01-01 00:00:00'',
                   run_status = Some ''initial''\<rparr>"

definition store_p :: store where
  "store_p = \<lparr>last_run = Some [initial_run], staging_tables = [''p_initial''],
               env_tables = [(''p_dev'', [row_a, row_b, row_c])],
               triggers = [''update_modified_timestamp_p_dev''],
               related_tables = []\<rparr>"

text \<open>The file before \<^verbatim>\<open>create_db\<close>.\<close>

definition empty_store :: store where
  "empty_store = \<lparr>last_run = None, staging_tables = [], env_tables = [], triggers = [],
                   related_tables = []\<rparr>"



text \<open>A remote end that creates every page under the id 99 and accepts every follow-up.\<close>

definition remote_99 :: remote where
  "remote_99 =
     \<lparr>page_mutation = (\<lambda>kind vars.
        Returned \<lparr>errors = None,
                  pages = Some (Some \<lparr>page_id = 99, response_message = ''created''\<rparr>, None)\<rparr>),
      follow_up_mutation = (\<lambda>page related. Returned True),
      page_query = (\<lambda>aid. NoResponse)\<rparr>"

section \<open>Properties of candidate selection\<close>

lemma is_candidate_Some:
  "is_candidate (Some T) r \<longleftrightarrow>
     modified_timestamp r = None \<or> (\<exists>m. modified_timestamp r = Some m \<and> T < m)"
  by (cases "modified_timestamp r")
     (simp_all add: is_candidate_def sql_true_def sql_or_def sql_is_null_def sql_gt_def)

lemma is_candidate_None:
  "is_candidate None r \<longleftrightarrow> modified_timestamp r = None"
  by (cases "modified_timestamp r")
     (simp_all add: is_candidate_def sql_true_def sql_or_def sql_is_null_def sql_gt_def)

lemma sorted_le_last:
  "sorted xs \<Longrightarrow> x \<in> set xs \<Longrightarrow> x \<le> last xs"
  by (induction xs) auto

lemma first_by_timestamp_desc:
  assumes "Some T \<in> last_sync_timestamp ` set runs"
    and "\<forall>r\<in>set runs. last_sync_timestamp r \<le> Some T"
  shows "\<exists>r rest. take 1 (rev (sort_key last_sync_timestamp runs)) = r # rest
           \<and> last_sync_timestamp r = Some T"
proof -
  let ?ys = "sort_key last_sync_timestamp runs"
  from assms(1) have ne: "?ys \<noteq> []" by (auto simp: set_empty [symmetric] simp del: set_empty)
  obtain r0 where r0: "r0 \<in> set runs" "last_sync_timestamp r0 = Some T"
    using assms(1) by auto
  have srt: "sorted (map last_sync_timestamp ?ys)" by (rule sorted_sort_key)
  have "r0 \<in> set ?ys" using r0 by simp
  then have "last_sync_timestamp r0 \<in> set (map last_sync_timestamp ?ys)" by auto
  then have "last_sync_timestamp r0 \<le> last (map last_sync_timestamp ?ys)"
    by (rule sorted_le_last [OF srt])
  then have ge: "Some T \<le> last_sync_timestamp (last ?ys)"
    using ne r0 by (simp add: last_map)
  have "last ?ys \<in> set runs" using ne last_in_set [of ?ys] by simp
  then have le: "last_sync_timestamp (last ?ys) \<le> Some T" using assms(2) by blast
  from ge le have eq: "last_sync_timestamp (last ?ys) = Some T" by simp
  from ne have "take 1 (rev ?ys) = [last ?ys]"
    by (cases ?ys rule: rev_cases) simp_all
  with eq show ?thesis by blast
qed

text \<open>
  C1. With \<open>T\<close> the most recent timestamp of the run log (one that \<^verbatim>\<open>strptime\<close> reads
  back as itself, as every text written by \<^verbatim>\<open>datetime('now')\<close> is), the push scan returns
  exactly the rows of the environment table whose \<^verbatim>\<open>modified_timestamp\<close> is \<^verbatim>\<open>NULL\<close> or
  strictly greater than \<open>T\<close>: a row is selected if and only if it satisfies that
  condition, so a row stamped at or before \<open>T\<close> is not selected.
\<close>

theorem fetch_all_records_selects:
  assumes "last_run st = Some runs"
    and "map_of (env_tables st) env_table_name = Some rows"
    and "Some T \<in> last_sync_timestamp ` set runs"
    and "\<forall>r\<in>set runs. last_sync_timestamp r \<le> Some T"
    and "strptime T = Some T"
  shows "fetch_all_records strptime st env_table_name =
           Inr (map select_columns
                  (filter (\<lambda>r. modified_timestamp r = None
                              \<or> (\<exists>m. modified_timestamp r = Some m \<and> T < m)) rows))"
proof -
  obtain r rest where "take 1 (rev (sort_key last_sync_timestamp runs)) = r # rest"
    and "last_sync_timestamp r = Some T"
    using first_by_timestamp_desc [OF assms(3,4)] by blast
  then have "get_last_run_info strptime st = Inr (Some T)"
    using assms(1,5) by (simp add: get_last_run_info_def)
  then show ?thesis
    using assms(2) by (simp add: fetch_all_records_def is_candidate_Some cong: filter_cong)
qed

theorem fetch_all_records_selects_witness:
  "fetch_all_records Some store_p ''p_dev'' = Inr [select_columns row_a, select_columns row_c]"
  using fetch_all_records_selects
          [of store_p "[initial_run]" "''p_dev''" "[row_a, row_b, row_c]" "''2024-01-01 00:00:00''" Some]
  by (simp add: store_p_def initial_run_def row_a_def row_b_def row_c_def)

section \<open>Properties of a pushed row\<close>

lemma matches_path_locale_Some:
  "matches_path_locale (Some p) (Some l) r \<longleftrightarrow> path r = Some p \<and> locale r = Some l"
  by (cases "path r"; cases "locale r")
     (auto simp: matches_path_locale_def sql_true_def sql_and_def sql_eq_def)

lemma map_of_update_same: "map_of (AList.update k v al) k = Some v"
  by (simp add: update_conv')

lemma length_fire_update_trigger [simp]:
  "length (fire_update_trigger st tn now ids rows) = length rows"
  by (simp add: fire_update_trigger_def)

lemma nth_fire_update_trigger:
  "i < length rows \<Longrightarrow>
     fire_update_trigger st tn now ids rows ! i =
       (if trigger_name tn \<in> set (triggers st) \<and> article_id (rows ! i) \<in> set ids
        then (rows ! i)\<lparr>modified_timestamp := Some now\<rparr> else rows ! i)"
  by (simp add: fire_update_trigger_def)

lemma process_record_pushed:
  assumes "prepare_record_variables row = Inr (aid, exp_id, vars)"
    and "variables = (if falsy_int exp_id then vars else vars\<lparr>v_id := exp_id\<rparr>)"
    and "page_mutation api (if falsy_int exp_id then Create else Update) variables = Returned reply"
    and "errors reply = None"
    and "pages reply = Some (created, updated)"
    and "(case updated of Some u \<Rightarrow> Some (page_id u) | None \<Rightarrow> map_option page_id created) = Some N"
    and "update_record_status now st tn N variables = Inr st'"
  shows "fst (process_record api now st tn row) = st'"
  using assms
  by (simp add: process_record_def execute_graphql_mutation_def Let_def
           split: sum.splits prod.splits option.splits)

lemma update_record_status_result:
  assumes "v_path variables = Some p" "p \<noteq> []" "v_locale variables = Some l" "l \<noteq> []"
    and "map_of (env_tables st) tn = Some rows"
  shows "update_record_status now st tn N variables =
           Inr (st\<lparr>env_tables := AList.update tn
                  (fire_update_trigger st tn now
                     (map article_id (filter (\<lambda>r. path r = Some p \<and> locale r = Some l) rows))
                     (map (\<lambda>r. if path r = Some p \<and> locale r = Some l
                               then r\<lparr>exp_article_id := Some N, status := Some ''succeeded''\<rparr>
                               else r) rows))
                  (env_tables st)\<rparr>)"
  using assms
  by (simp add: update_record_status_def falsy_text_def Let_def matches_path_locale_Some
           cong: filter_cong map_cong)





lemma prepare_record_variables_fields:
  assumes "prepare_record_variables (select_columns r) = Inr (aid, exp_id, vars)"
  shows "aid = article_id r \<and> exp_id = exp_article_id r
         \<and> v_path vars = path r \<and> v_locale vars = locale r"
  using assms
  by (auto simp: prepare_record_variables_def select_columns_def split: option.splits)



section \<open>Rows stamped by the update trigger\<close>

lemma update_record_status_shape:
  assumes "update_record_status now st tn N variables = Inr st'"
  shows "\<exists>rows hit. map_of (env_tables st) tn = Some rows \<and>
           st' = st\<lparr>env_tables := AList.update tn
                   (fire_update_trigger st tn now (map article_id (filter hit rows))
                      (map (\<lambda>r. if hit r then r\<lparr>exp_article_id := Some N,
                                                 status := Some ''succeeded''\<rparr> else r) rows))
                   (env_tables st)\<rparr>"
proof (cases "map_of (env_tables st) tn")
  case None
  with assms show ?thesis
    by (simp add: update_record_status_def split: if_splits)
next
  case (Some rows)
  with assms have "st' = st\<lparr>env_tables := AList.update tn
                   (fire_update_trigger st tn now
                      (map article_id (filter (matches_path_locale (v_path variables) (v_locale variables)) rows))
                      (map (\<lambda>r. if matches_path_locale (v_path variables) (v_locale variables) r
                                then r\<lparr>exp_article_id := Some N, status := Some ''succeeded''\<rparr>
                                else r) rows))
                   (env_tables st)\<rparr>"
    by (simp add: update_record_status_def Let_def split: if_splits)
  with Some show ?thesis by blast
qed

lemma after_update_cases:
  "fst (case update_record_status now st tn page variables of
          Inl e \<Rightarrow> (st, said @ [ErrorWhileProcessingRecord e])
        | Inr st' \<Rightarrow>
            (case fetch_related_data st' tn aid of
               Inl e \<Rightarrow> (st', said @ [ErrorWhileProcessingRecord e])
             | Inr related \<Rightarrow>
                 (case handle_follow_up_mutation (follow_up_mutation api page related) page of
                    (ms, None) \<Rightarrow> (st', said @ ms)
                  | (ms, Some e) \<Rightarrow> (st', said @ ms @ [ErrorWhileProcessingRecord e])))) =
   (case update_record_status now st tn page variables of Inl e \<Rightarrow> st | Inr st' \<Rightarrow> st')"
  by (simp split: sum.splits prod.splits option.splits)

lemma process_record_cases:
  "fst (process_record api now st tn row) = st \<or>
   (\<exists>N variables. update_record_status now st tn N variables
        = Inr (fst (process_record api now st tn row)))"
proof (cases "prepare_record_variables row")
  case (Inl e)
  then show ?thesis by (simp add: process_record_def)
next
  case (Inr triple)
  obtain aid exp_id vars where triple: "triple = (aid, exp_id, vars)" by (cases triple)
  define variables where "variables = (if falsy_int exp_id then vars else vars\<lparr>v_id := exp_id\<rparr>)"
  define response where
    "response = page_mutation api (if falsy_int exp_id then Create else Update) variables"
  show ?thesis
  proof (cases "execute_graphql_mutation response")
    case (Inl e)
    then show ?thesis
      using Inr triple by (simp add: process_record_def variables_def response_def)
  next
    case reply: (Inr response_data)
    show ?thesis
    proof (cases "errors response_data")
      case (Some errs)
      then show ?thesis
        using Inr triple reply
        by (cases errs) (simp_all add: process_record_def variables_def response_def)
    next
      case no_errors: None
      show ?thesis
      proof (cases "pages response_data")
        case None
        then show ?thesis
          using Inr triple reply no_errors
          by (simp add: process_record_def variables_def response_def)
      next
        case (Some cu)
        obtain created updated where cu: "cu = (created, updated)" by (cases cu)
        define bound where
          "bound = (case updated of Some u \<Rightarrow> Some (page_id u) | None \<Rightarrow> map_option page_id created)"
        show ?thesis
        proof (cases bound)
          case None
          then show ?thesis
            using Inr triple reply no_errors Some cu
            by (simp add: process_record_def variables_def response_def bound_def Let_def)
        next
          case page: (Some page)
          have eq: "fst (process_record api now st tn row) =
                  (case update_record_status now st tn page variables of
                     Inl e \<Rightarrow> st | Inr st' \<Rightarrow> st')"
            using Inr triple reply no_errors Some cu page
            by (simp add: process_record_def variables_def response_def bound_def Let_def
                  after_update_cases)
          show ?thesis
          proof (cases "update_record_status now st tn page variables")
            case (Inl e)
            with eq show ?thesis by simp
          next
            case (Inr st')
            with eq have "update_record_status now st tn page variables
                            = Inr (fst (process_record api now st tn row))" by simp
            then show ?thesis by blast
          qed
        qed
      qed
    qed
  qed
qed

lemma process_record_last_run [simp]:
  "last_run (fst (process_record api now st tn row)) = last_run st"
  using process_record_cases [of api now st tn row]
  by (auto dest!: update_record_status_shape)

lemma fst_process_rows_Cons:
  "fst (process_rows api clock tn (row # rows) st) =
     fst (process_rows api clock tn rows (fst (process_record api (clock row) st tn row)))"
  by (simp split: prod.splits)

lemma db_file_process_records:
  "db_file (process_records api strptime clock db env tok url st) = st \<or>
   (\<exists>rows. db_file (process_records api strptime clock db env tok url st) =
      fst (process_rows api clock (env_table_of db env) rows st))"
proof (cases "fetch_all_records strptime st (env_table_of db env)")
  case (Inl e)
  then show ?thesis by (simp add: process_records_def Let_def)
next
  case (Inr rows)
  obtain st' ms where pr: "process_rows api clock (env_table_of db env) rows st = (st', ms)"
    by (cases "process_rows api clock (env_table_of db env) rows st")
  then have "fst (process_rows api clock (env_table_of db env) rows st) = st'" by simp
  moreover have "db_file (process_records api strptime clock db env tok url st) = st
               \<or> db_file (process_records api strptime clock db env tok url st) = st'"
    using Inr pr by (simp add: process_records_def Let_def)
  ultimately show ?thesis by metis
qed

lemma process_rows_last_run [simp]:
  "last_run (fst (process_rows api clock tn rows st)) = last_run st"
proof (induction rows arbitrary: st)
  case Nil
  then show ?case by simp
next
  case (Cons row rows)
  have "last_run (fst (process_rows api clock tn rows (fst (process_record api (clock row) st tn row))))
          = last_run st"
    by (simp add: Cons.IH)
  then show ?case by (simp only: fst_process_rows_Cons)
qed

lemma process_records_last_run [simp]:
  "last_run (db_file (process_records api strptime clock db env tok url st)) = last_run st"
  using db_file_process_records [of api strptime clock db env tok url st]
  by auto

lemma stamped_since_update:
  assumes "stamped_since T tn i a st" and "T < now"
    and "update_record_status now st tn N variables = Inr st'"
  shows "stamped_since T tn i a st'"
proof -
  obtain rows hit where rows: "map_of (env_tables st) tn = Some rows"
    and st': "st' = st\<lparr>env_tables := AList.update tn
                   (fire_update_trigger st tn now (map article_id (filter hit rows))
                      (map (\<lambda>r. if hit r then r\<lparr>exp_article_id := Some N,
                                                 status := Some ''succeeded''\<rparr> else r) rows))
                   (env_tables st)\<rparr>"
    using update_record_status_shape [OF assms(3)] by blast
  from assms(1) rows have i: "i < length rows" and a: "article_id (rows ! i) = a"
    and m: "\<exists>m. modified_timestamp (rows ! i) = Some m \<and> T < m"
    and trig: "trigger_name tn \<in> set (triggers st)"
    by (auto simp: stamped_since_def split: option.splits)
  show ?thesis
    using i a m trig assms(2)
    by (auto simp: stamped_since_def st' map_of_update_same nth_fire_update_trigger)
qed

lemma stamped_since_process_record:
  assumes "stamped_since T tn i a st" and "T < now"
  shows "stamped_since T tn i a (fst (process_record api now st tn row))"
  using process_record_cases [of api now st tn row] assms
  by (auto intro: stamped_since_update)

lemma stamped_since_process_rows:
  assumes "stamped_since T tn i a st" and "\<forall>c. T < clock c"
  shows "stamped_since T tn i a (fst (process_rows api clock tn rows st))"
  using assms
proof (induction rows arbitrary: st)
  case Nil
  then show ?case by simp
next
  case (Cons row rows)
  from Cons.prems(2) have "T < clock row" by blast
  with Cons.prems(1)
  have "stamped_since T tn i a (fst (process_record api (clock row) st tn row))"
    by (rule stamped_since_process_record)
  then have "stamped_since T tn i a
               (fst (process_rows api clock tn rows (fst (process_record api (clock row) st tn row))))"
    using Cons.prems(2) by (rule Cons.IH)
  then show ?case by (simp only: fst_process_rows_Cons)
qed

lemma stamped_since_process_records:
  assumes "stamped_since T (env_table_of db env) i a st" and "\<forall>c. T < clock c"
  shows "stamped_since T (env_table_of db env) i a
           (db_file (process_records api strptime clock db env tok url st))"
  using db_file_process_records [of api strptime clock db env tok url st]
    stamped_since_process_rows [OF assms, of api] assms(1)
  by auto

lemma get_last_run_info_latest:
  assumes "last_run st = Some runs"
    and "Some T \<in> last_sync_timestamp ` set runs"
    and "\<forall>r\<in>set runs. last_sync_timestamp r \<le> Some T"
    and "strptime T = Some T"
  shows "get_last_run_info strptime st = Inr (Some T)"
proof -
  obtain r rest where "take 1 (rev (sort_key last_sync_timestamp runs)) = r # rest"
    and "last_sync_timestamp r = Some T"
    using first_by_timestamp_desc [OF assms(2,3)] by blast
  then show ?thesis
    using assms(1,4) by (simp add: get_last_run_info_def)
qed

lemma fetch_all_records_value:
  assumes "get_last_run_info strptime st = Inr d"
    and "map_of (env_tables st) tn = Some rows"
  shows "fetch_all_records strptime st tn = Inr (map select_columns (filter (is_candidate d) rows))"
  using assms by (simp add: fetch_all_records_def)

lemma push_scans_last_run [simp]:
  "last_run (push_scans apis strptime clocks db env tok url n st) = last_run st"
  by (induction n) simp_all

lemma stamped_since_push_scans:
  assumes "stamped_since T (env_table_of db env) i a st" and "\<forall>k c. T < clocks k c"
  shows "stamped_since T (env_table_of db env) i a
           (push_scans apis strptime clocks db env tok url n st)"
proof (induction n)
  case 0
  from assms(1) show ?case by simp
next
  case (Suc n)
  from assms(2) have "\<forall>c. T < clocks n c" by blast
  with Suc.IH show ?case
    by (simp add: stamped_since_process_records)
qed

lemma stamped_since_selected:
  assumes "stamped_since T tn i a st"
    and "get_last_run_info strptime st = Inr (Some T)"
  shows "\<exists>rows cs. map_of (env_tables st) tn = Some rows \<and> i < length rows
           \<and> article_id (rows ! i) = a
           \<and> fetch_all_records strptime st tn = Inr cs
           \<and> select_columns (rows ! i) \<in> set cs"
proof -
  from assms(1) obtain rows where rows: "map_of (env_tables st) tn = Some rows"
    and i: "i < length rows" and a: "article_id (rows ! i) = a"
    and m: "\<exists>m. modified_timestamp (rows ! i) = Some m \<and> T < m"
    by (auto simp: stamped_since_def split: option.splits)
  from m have "is_candidate (Some T) (rows ! i)" by (simp add: is_candidate_Some)
  moreover from i have "rows ! i \<in> set rows" by simp
  ultimately have "select_columns (rows ! i)
                     \<in> set (map select_columns (filter (is_candidate (Some T)) rows))"
    by simp
  with rows i a fetch_all_records_value [OF assms(2) rows] show ?thesis by blast
qed

lemma stamped_since_pushed:
  assumes "trigger_name tn \<in> set (triggers st)"
    and "map_of (env_tables st) tn = Some rows"
    and "i < length rows"
    and "path (rows ! i) = Some p" and "p \<noteq> []"
    and "locale (rows ! i) = Some l" and "l \<noteq> []"
    and "prepare_record_variables (select_columns (rows ! i)) = Inr (aid, exp_id, vars)"
    and "page_mutation api (if falsy_int exp_id then Create else Update)
           (if falsy_int exp_id then vars else vars\<lparr>v_id := exp_id\<rparr>) = Returned reply"
    and "errors reply = None"
    and "pages reply = Some (created, updated)"
    and "(case updated of Some u \<Rightarrow> Some (page_id u) | None \<Rightarrow> map_option page_id created) = Some N"
  shows "\<exists>rows'. map_of (env_tables (fst (process_record api now st tn (select_columns (rows ! i))))) tn
                   = Some rows'
           \<and> length rows' = length rows
           \<and> article_id (rows' ! i) = article_id (rows ! i)
           \<and> modified_timestamp (rows' ! i) = Some now"
    and "triggers (fst (process_record api now st tn (select_columns (rows ! i)))) = triggers st"
proof -
  let ?variables = "if falsy_int exp_id then vars else vars\<lparr>v_id := exp_id\<rparr>"
  let ?hit = "\<lambda>r. path r = Some p \<and> locale r = Some l"
  let ?rows' = "fire_update_trigger st tn now (map article_id (filter ?hit rows))
                  (map (\<lambda>r. if ?hit r
                            then r\<lparr>exp_article_id := Some N, status := Some ''succeeded''\<rparr>
                            else r) rows)"
  let ?st' = "st\<lparr>env_tables := AList.update tn ?rows' (env_tables st)\<rparr>"
  have flds: "v_path ?variables = Some p" "v_locale ?variables = Some l"
    using prepare_record_variables_fields [OF assms(8)] assms(4,6) by simp_all
  have upd: "update_record_status now st tn N ?variables = Inr ?st'"
    using flds assms(2,5,7) by (simp add: update_record_status_result)
  have st': "fst (process_record api now st tn (select_columns (rows ! i))) = ?st'"
    by (rule process_record_pushed [OF assms(8) refl assms(9,10,11,12) upd])
  have "rows ! i \<in> set (filter ?hit rows)"
    using assms(3,4,6) by simp
  then have "article_id (rows ! i) \<in> set (map article_id (filter ?hit rows))"
    unfolding set_map by (rule imageI)
  then have "modified_timestamp (?rows' ! i) = Some now \<and> article_id (?rows' ! i) = article_id (rows ! i)"
    using assms(1,3,4,6) by (simp add: nth_fire_update_trigger)
  then show "\<exists>rows'. map_of (env_tables (fst (process_record api now st tn (select_columns (rows ! i))))) tn
                   = Some rows'
           \<and> length rows' = length rows
           \<and> article_id (rows' ! i) = article_id (rows ! i)
           \<and> modified_timestamp (rows' ! i) = Some now"
    by (simp add: st' map_of_update_same)
  show "triggers (fst (process_record api now st tn (select_columns (rows ! i)))) = triggers st"
    by (simp add: st')
qed

text \<open>
  C8. A successful push of row \<open>i\<close>, made at time \<open>now\<close>, runs the \<^verbatim>\<open>UPDATE\<close> of
  \<^verbatim>\<open>update_record_status\<close>; the table's \<^verbatim>\<open>AFTER UPDATE\<close> trigger then sets the row's
  \<^verbatim>\<open>modified_timestamp\<close> to \<open>now\<close>. No push writes to the run log. So, with \<open>T\<close> the most
  recent run log timestamp and every clock reading later than \<open>T\<close>, the row is among the
  candidates of \<^verbatim>\<open>fetch_all_records\<close> after the rest of that scan (the rows \<open>rest\<close>) and
  after any number \<open>n\<close> of further scans, whatever the remote end answers in them.
\<close>

theorem pushed_row_remains_candidate:
  assumes "trigger_name (env_table_of db env) \<in> set (triggers st)"
    and "last_run st = Some runs"
    and "Some T \<in> last_sync_timestamp ` set runs"
    and "\<forall>r\<in>set runs. last_sync_timestamp r \<le> Some T"
    and "strptime T = Some T"
    and "map_of (env_tables st) (env_table_of db env) = Some rows"
    and "i < length rows"
    and "path (rows ! i) = Some p" and "p \<noteq> []"
    and "locale (rows ! i) = Some l" and "l \<noteq> []"
    and "prepare_record_variables (select_columns (rows ! i)) = Inr (aid, exp_id, vars)"
    and "page_mutation api (if falsy_int exp_id then Create else Update)
           (if falsy_int exp_id then vars else vars\<lparr>v_id := exp_id\<rparr>) = Returned reply"
    and "errors reply = None"
    and "pages reply = Some (created, updated)"
    and "(case updated of Some u \<Rightarrow> Some (page_id u) | None \<Rightarrow> map_option page_id created) = Some N"
    and "T < now"
    and "\<forall>c. T < clock c"
    and "\<forall>k c. T < clocks k c"
  shows "(\<exists>rows1.
            map_of (env_tables (fst (process_record api now st (env_table_of db env)
                                       (select_columns (rows ! i))))) (env_table_of db env)
              = Some rows1
          \<and> modified_timestamp (rows1 ! i) = Some now)
       \<and> last_run (push_scans apis strptime clocks db env tok url n
                     (fst (process_rows api clock (env_table_of db env) rest
                             (fst (process_record api now st (env_table_of db env)
                                     (select_columns (rows ! i)))))))
           = last_run st
       \<and> (\<exists>rows_n cs.
            map_of (env_tables (push_scans apis strptime clocks db env tok url n
                     (fst (process_rows api clock (env_table_of db env) rest
                             (fst (process_record api now st (env_table_of db env)
                                     (select_columns (rows ! i)))))))) (env_table_of db env)
              = Some rows_n
          \<and> i < length rows_n
          \<and> article_id (rows_n ! i) = article_id (rows ! i)
          \<and> fetch_all_records strptime (push_scans apis strptime clocks db env tok url n
                     (fst (process_rows api clock (env_table_of db env) rest
                             (fst (process_record api now st (env_table_of db env)
                                     (select_columns (rows ! i))))))) (env_table_of db env)
              = Inr cs
          \<and> select_columns (rows_n ! i) \<in> set cs)"
proof -
  let ?tn = "env_table_of db env"
  let ?st1 = "fst (process_record api now st ?tn (select_columns (rows ! i)))"
  let ?st2 = "fst (process_rows api clock ?tn rest ?st1)"
  let ?stn = "push_scans apis strptime clocks db env tok url n ?st2"
  obtain rows1 where rows1: "map_of (env_tables ?st1) ?tn = Some rows1"
    and len: "length rows1 = length rows"
    and key: "article_id (rows1 ! i) = article_id (rows ! i)"
    and stamp: "modified_timestamp (rows1 ! i) = Some now"
    using stamped_since_pushed(1) [OF assms(1,6-16)] by blast
  have trig: "trigger_name ?tn \<in> set (triggers ?st1)"
    using stamped_since_pushed(2) [OF assms(1,6-16)] assms(1) by simp
  have "stamped_since T ?tn i (article_id (rows ! i)) ?st1"
    using rows1 len key stamp trig assms(7,17) by (simp add: stamped_since_def)
  then have "stamped_since T ?tn i (article_id (rows ! i)) ?st2"
    using assms(18) by (rule stamped_since_process_rows)
  then have inv: "stamped_since T ?tn i (article_id (rows ! i)) ?stn"
    using assms(19) by (rule stamped_since_push_scans)
  have runs: "last_run ?stn = last_run st" by simp
  then have "get_last_run_info strptime ?stn = Inr (Some T)"
    using assms(2-5) by (simp add: get_last_run_info_latest)
  with inv have "\<exists>rows_n cs. map_of (env_tables ?stn) ?tn = Some rows_n \<and> i < length rows_n
           \<and> article_id (rows_n ! i) = article_id (rows ! i)
           \<and> fetch_all_records strptime ?stn ?tn = Inr cs
           \<and> select_columns (rows_n ! i) \<in> set cs"
    by (rule stamped_since_selected)
  with rows1 stamp runs show ?thesis by blast
qed


theorem pushed_row_remains_candidate_witness:
  "(\<exists>rows1.
      map_of (env_tables (fst (process_record remote_99 ''2024-02-01 08:00:00'' store_p
                                 (env_table_of ''p.db'' ''dev'')
                                 (select_columns ([row_a, row_b, row_c] ! 0)))))
             (env_table_of ''p.db'' ''dev'') = Some rows1
    \<and> modified_timestamp (rows1 ! 0) = Some ''2024-02-01 08:00:00'')
   \<and> last_run (push_scans (\<lambda>k. remote_99) Some (\<lambda>k c. ''2024-03-01 09:00:00'') ''p.db'' ''dev''
                ''token'' ''https://arva'' 2
                (fst (process_rows remote_99 (\<lambda>c. ''2024-02-01 08:00:05'') (env_table_of ''p.db'' ''dev'')
                      [select_columns row_c]
                      (fst (process_record remote_99 ''2024-02-01 08:00:00'' store_p
                              (env_table_of ''p.db'' ''dev'')
                              (select_columns ([row_a, row_b, row_c] ! 0))))))) = last_run store_p
   \<and> (\<exists>rows_n cs.
        map_of (env_tables (push_scans (\<lambda>k. remote_99) Some (\<lambda>k c. ''2024-03-01 09:00:00'') ''p.db'' ''dev''
                ''token'' ''https://arva'' 2
                (fst (process_rows remote_99 (\<lambda>c. ''2024-02-01 08:00:05'') (env_table_of ''p.db'' ''dev'')
                      [select_columns row_c]
                      (fst (process_record remote_99 ''2024-02-01 08:00:00'' store_p
                              (env_table_of ''p.db'' ''dev'')
                              (select_columns ([row_a, row_b, row_c] ! 0)))))))) (env_table_of ''p.db'' ''dev'') = Some rows_n
      \<and> 0 < length rows_n
      \<and> article_id (rows_n ! 0) = article_id ([row_a, row_b, row_c] ! 0)
      \<and> fetch_all_records Some (push_scans (\<lambda>k. remote_99) Some (\<lambda>k c. ''2024-03-01 09:00:00'') ''p.db'' ''dev''
                ''token'' ''https://arva'' 2
                (fst (process_rows remote_99 (\<lambda>c. ''2024-02-01 08:00:05'') (env_table_of ''p.db'' ''dev'')
                      [select_columns row_c]
                      (fst (process_record remote_99 ''2024-02-01 08:00:00'' store_p
                              (env_table_of ''p.db'' ''dev'')
                              (select_columns ([row_a, row_b, row_c] ! 0))))))) (env_table_of ''p.db'' ''dev'') = Inr cs
      \<and> select_columns (rows_n ! 0) \<in> set cs)"
  by (rule pushed_row_remains_candidate
        [where runs = "[initial_run]" and T = "''2024-01-01 00:00:00''"
           and p = "''/a''" and l = "''en''" and aid = 1 and exp_id = None
           and vars = "\<lparr>v_content = Some ''text a'', v_locale = Some ''en'',
                        v_path = Some ''/a'', v_tags = [''x'', ''y''], v_title = Some ''A'',
                        v_id = None\<rparr>"
           and reply = "\<lparr>errors = None,
                         pages = Some (Some \<lparr>page_id = 99, response_message = ''created''\<rparr>,
                                       None)\<rparr>"
           and created = "Some \<lparr>page_id = 99, response_message = ''created''\<rparr>"
           and updated = None and N = 99])
     (simp_all add: store_p_def initial_run_def row_a_def row_b_def row_c_def remote_99_def
        env_table_of_def trigger_name_def prepare_record_variables_def select_columns_def
        falsy_int_def)

section \<open>Properties of schema creation and of the connection\<close>

lemma create_if_absent_present:
  "map_of tables name \<noteq> None \<Longrightarrow> create_if_absent name fresh tables = tables"
  by (auto simp: create_if_absent_def)

lemma map_of_create_if_absent_same:
  "map_of (create_if_absent name fresh tables) name \<noteq> None"
  by (auto simp: create_if_absent_def map_add_def split: option.splits)

lemma map_of_create_if_absent_mono:
  "map_of tables k \<noteq> None \<Longrightarrow> map_of (create_if_absent name fresh tables) k \<noteq> None"
  by (auto simp: create_if_absent_def map_add_def split: option.splits)

lemma foldl_create_mono:
  "map_of tables k \<noteq> None \<Longrightarrow>
   map_of (foldl (\<lambda>al x. create_if_absent (nm x) (fr x) al) tables xs) k \<noteq> None"
  by (induction xs arbitrary: tables) (simp_all add: map_of_create_if_absent_mono del: not_None_eq)

lemma foldl_create_present:
  "x \<in> set xs \<Longrightarrow>
   map_of (foldl (\<lambda>al x. create_if_absent (nm x) (fr x) al) tables xs) (nm x) \<noteq> None"
proof (induction xs arbitrary: tables)
  case Nil
  then show ?case by simp
next
  case (Cons y ys)
  show ?case
  proof (cases "x = y")
    case True
    then show ?thesis
      by (simp add: foldl_create_mono map_of_create_if_absent_same del: not_None_eq)
  next
    case False
    with Cons.prems have "x \<in> set ys" by simp
    then show ?thesis by (simp add: Cons.IH del: not_None_eq)
  qed
qed

lemma foldl_create_unchanged:
  "\<forall>x\<in>set xs. map_of tables (nm x) \<noteq> None \<Longrightarrow>
   foldl (\<lambda>al x. create_if_absent (nm x) (fr x) al) tables xs = tables"
  by (induction xs arbitrary: tables) (simp_all add: create_if_absent_present del: not_None_eq)

lemma foldl_create_twice:
  "foldl (\<lambda>al x. create_if_absent (nm x) (fr x) al)
     (foldl (\<lambda>al x. create_if_absent (nm x) (fr x) al) tables xs) xs =
   foldl (\<lambda>al x. create_if_absent (nm x) (fr x) al) tables xs"
  by (rule foldl_create_unchanged) (simp add: foldl_create_present del: not_None_eq)

lemma foldl_add_mono:
  "k \<in> set names \<Longrightarrow> k \<in> set (foldl (\<lambda>ns x. add_if_absent (nm x) ns) names xs)"
  by (induction xs arbitrary: names) (simp_all add: add_if_absent_def)

lemma foldl_add_present:
  "x \<in> set xs \<Longrightarrow> nm x \<in> set (foldl (\<lambda>ns x. add_if_absent (nm x) ns) names xs)"
proof (induction xs arbitrary: names)
  case Nil
  then show ?case by simp
next
  case (Cons y ys)
  show ?case
  proof (cases "x = y")
    case True
    have "nm y \<in> set (add_if_absent (nm y) names)" by (simp add: add_if_absent_def)
    then have "nm y \<in> set (foldl (\<lambda>ns x. add_if_absent (nm x) ns)
                               (add_if_absent (nm y) names) ys)"
      by (rule foldl_add_mono)
    with True show ?thesis by simp
  next
    case False
    with Cons.prems have "x \<in> set ys" by simp
    then show ?thesis by (simp add: Cons.IH)
  qed
qed

lemma foldl_add_unchanged:
  "\<forall>x\<in>set xs. nm x \<in> set names \<Longrightarrow>
   foldl (\<lambda>ns x. add_if_absent (nm x) ns) names xs = names"
  by (induction xs arbitrary: names) (simp_all add: add_if_absent_def)

lemma foldl_add_twice:
  "foldl (\<lambda>ns x. add_if_absent (nm x) ns)
     (foldl (\<lambda>ns x. add_if_absent (nm x) ns) names xs) xs =
   foldl (\<lambda>ns x. add_if_absent (nm x) ns) names xs"
  by (rule foldl_add_unchanged) (simp add: foldl_add_present)

text \<open>The fields of the store after the schema statements.\<close>

lemma related_schema_fold:
  "foldl (\<lambda>s (table_suffix, schema).
              s\<lparr>related_tables :=
                  create_if_absent (tn @ ''_'' @ table_suffix)
                    \<lparr>columns = schema, rel_rows = []\<rparr> (related_tables s)\<rparr>) st xs =
   st\<lparr>related_tables :=
        foldl (\<lambda>al x. create_if_absent (tn @ ''_'' @ fst x)
                         \<lparr>columns = snd x, rel_rows = []\<rparr> al) (related_tables st) xs\<rparr>"
  by (induction xs arbitrary: st) (simp_all add: case_prod_beta)

lemma create_related_tables_eq:
  "create_related_tables st tn =
   st\<lparr>related_tables :=
        foldl (\<lambda>al x. create_if_absent (tn @ ''_'' @ fst x)
                         \<lparr>columns = snd x, rel_rows = []\<rparr> al) (related_tables st)
          related_schemas\<rparr>"
  by (simp only: create_related_tables_def related_schema_fold)

lemma env_fold:
  "foldl (\<lambda>s env.
              create_related_tables
                (create_update_trigger (create_main_env_table s (tn @ env)) (tn @ env))
                (tn @ env)) st envs =
   st\<lparr>env_tables := foldl (\<lambda>al env. create_if_absent (tn @ env) [] al) (env_tables st) envs,
      triggers := foldl (\<lambda>ns env. add_if_absent (trigger_name (tn @ env)) ns) (triggers st) envs,
      related_tables :=
        foldl (\<lambda>al x. create_if_absent ((tn @ fst x) @ ''_'' @ fst (snd x))
                         \<lparr>columns = snd (snd x), rel_rows = []\<rparr> al) (related_tables st)
          (List.product envs related_schemas)\<rparr>"
proof (induction envs arbitrary: st)
  case Nil
  then show ?case by simp
next
  case (Cons env envs)
  show ?case
    by (simp only: foldl_Cons Cons.IH)
       (simp add: create_related_tables_eq create_update_trigger_def
          create_main_env_table_def foldl_map comp_def)
qed


lemma create_env_tables_eq:
  "create_env_tables st tn =
   st\<lparr>env_tables := foldl (\<lambda>al env. create_if_absent (tn @ env) [] al) (env_tables st)
                       [''_dev'', ''_test'', ''_prod''],
      triggers := foldl (\<lambda>ns env. add_if_absent (trigger_name (tn @ env)) ns) (triggers st)
                       [''_dev'', ''_test'', ''_prod''],
      related_tables :=
        foldl (\<lambda>al x. create_if_absent ((tn @ fst x) @ ''_'' @ fst (snd x))
                         \<lparr>columns = snd (snd x), rel_rows = []\<rparr> al) (related_tables st)
          (List.product [''_dev'', ''_test'', ''_prod''] related_schemas)\<rparr>"
  by (simp only: create_env_tables_def env_fold)

lemma create_db_last_run:
  "last_run (db_file (create_db db now st)) =
     Some ((case last_run st of None \<Rightarrow> [] | Some rs \<Rightarrow> rs) @
           [\<lparr>run_id = foldr max (map run_id (case last_run st of None \<Rightarrow> [] | Some rs \<Rightarrow> rs)) 0 + 1,
             last_sync_timestamp = Some now, run_status = Some ''initial''\<rparr>])"
  by (simp add: create_db_def create_env_tables_eq create_initial_table_def
        create_base_tables_def Let_def)

lemma create_db_catalogue:
  "staging_tables (db_file (create_db db now st)) =
     add_if_absent (remove_dot_db db @ ''_initial'') (staging_tables st)"
  "env_tables (db_file (create_db db now st)) =
     foldl (\<lambda>al env. create_if_absent (remove_dot_db db @ env) [] al) (env_tables st)
       [''_dev'', ''_test'', ''_prod'']"
  "triggers (db_file (create_db db now st)) =
     foldl (\<lambda>ns env. add_if_absent (trigger_name (remove_dot_db db @ env)) ns) (triggers st)
       [''_dev'', ''_test'', ''_prod'']"
  "related_tables (db_file (create_db db now st)) =
     foldl (\<lambda>al x. create_if_absent ((remove_dot_db db @ fst x) @ ''_'' @ fst (snd x))
                      \<lparr>columns = snd (snd x), rel_rows = []\<rparr> al) (related_tables st)
       (List.product [''_dev'', ''_test'', ''_prod''] related_schemas)"
  by (simp_all add: create_db_def Let_def create_env_tables_eq create_initial_table_def
        create_base_tables_def)

text \<open>
  C6, as amended. A second \<^verbatim>\<open>create_db\<close> on the same store raises nothing, reports success,
  and leaves the staging tables, the environment tables, the triggers and the related
  tables exactly as the first call left them: no table or trigger is created twice. It is
  not without effect, though: every call appends one row with status \<^verbatim>\<open>initial\<close> to the
  run log, so the run log after the second call holds one row more than after the first.
\<close>

theorem create_db_twice:
  "staging_tables (db_file (create_db db t2 (db_file (create_db db t1 st))))
     = staging_tables (db_file (create_db db t1 st))
   \<and> env_tables (db_file (create_db db t2 (db_file (create_db db t1 st))))
     = env_tables (db_file (create_db db t1 st))
   \<and> triggers (db_file (create_db db t2 (db_file (create_db db t1 st))))
     = triggers (db_file (create_db db t1 st))
   \<and> related_tables (db_file (create_db db t2 (db_file (create_db db t1 st))))
     = related_tables (db_file (create_db db t1 st))
   \<and> sink (create_db db t2 (db_file (create_db db t1 st))) = [DatabaseCreated db]
   \<and> raised (create_db db t2 (db_file (create_db db t1 st))) = None
   \<and> (\<exists>runs. last_run (db_file (create_db db t1 st)) = Some runs
         \<and> last_run (db_file (create_db db t2 (db_file (create_db db t1 st))))
             = Some (runs @ [\<lparr>run_id = foldr max (map run_id runs) 0 + 1,
                               last_sync_timestamp = Some t2,
                               run_status = Some ''initial''\<rparr>]))"
proof -
  let ?s1 = "db_file (create_db db t1 st)"
  let ?s2 = "db_file (create_db db t2 ?s1)"
  have "staging_tables ?s2 = staging_tables ?s1"
    by (simp add: create_db_catalogue(1) add_if_absent_def)
  moreover have "env_tables ?s2 = env_tables ?s1"
    by (simp only: create_db_catalogue(2) foldl_create_twice)
  moreover have "triggers ?s2 = triggers ?s1"
    by (simp only: create_db_catalogue(3) foldl_add_twice)
  moreover have "related_tables ?s2 = related_tables ?s1"
    by (simp only: create_db_catalogue(4) foldl_create_twice)
  moreover have "sink (create_db db t2 ?s1) = [DatabaseCreated db]"
    and "raised (create_db db t2 ?s1) = None"
    by (simp_all add: create_db_def Let_def)
  moreover have "\<exists>runs. last_run ?s1 = Some runs
         \<and> last_run ?s2 = Some (runs @ [\<lparr>run_id = foldr max (map run_id runs) 0 + 1,
                               last_sync_timestamp = Some t2,
                               run_status = Some ''initial''\<rparr>])"
    by (simp add: create_db_last_run)
  ultimately show ?thesis by blast
qed

text \<open>
  C6 as stated fails: on an empty store, the state after two calls differs from the state
  after one, and the run log then holds two rows with status \<^verbatim>\<open>initial\<close>, not one.
\<close>

theorem create_db_twice_counterexample:
  "db_file (create_db ''p.db'' ''2024-01-02 00:00:00''
             (db_file (create_db ''p.db'' ''2024-01-01 00:00:00'' empty_store)))
     \<noteq> db_file (create_db ''p.db'' ''2024-01-01 00:00:00'' empty_store)
   \<and> last_run (db_file (create_db ''p.db'' ''2024-01-02 00:00:00''
                          (db_file (create_db ''p.db'' ''2024-01-01 00:00:00'' empty_store))))
     = Some [\<lparr>run_id = 1, last_sync_timestamp = Some ''2024-01-01 00:00:00'',
              run_status = Some ''initial''\<rparr>,
             \<lparr>run_id = 2, last_sync_timestamp = Some ''2024-01-02 00:00:00'',
              run_status = Some ''initial''\<rparr>]"
proof -
  have one: "last_run (db_file (create_db ''p.db'' ''2024-01-01 00:00:00'' empty_store))
               = Some [\<lparr>run_id = 1, last_sync_timestamp = Some ''2024-01-01 00:00:00'',
                        run_status = Some ''initial''\<rparr>]"
    by (simp add: create_db_last_run empty_store_def)
  have two: "last_run (db_file (create_db ''p.db'' ''2024-01-02 00:00:00''
                          (db_file (create_db ''p.db'' ''2024-01-01 00:00:00'' empty_store))))
     = Some [\<lparr>run_id = 1, last_sync_timestamp = Some ''2024-01-01 00:00:00'',
              run_status = Some ''initial''\<rparr>,
             \<lparr>run_id = 2, last_sync_timestamp = Some ''2024-01-02 00:00:00'',
              run_status = Some ''initial''\<rparr>]"
    by (simp add: create_db_last_run empty_store_def)
  from one two have "last_run (db_file (create_db ''p.db'' ''2024-01-02 00:00:00''
                          (db_file (create_db ''p.db'' ''2024-01-01 00:00:00'' empty_store))))
      \<noteq> last_run (db_file (create_db ''p.db'' ''2024-01-01 00:00:00'' empty_store))"
    by simp
  then have "db_file (create_db ''p.db'' ''2024-01-02 00:00:00''
             (db_file (create_db ''p.db'' ''2024-01-01 00:00:00'' empty_store)))
     \<noteq> db_file (create_db ''p.db'' ''2024-01-01 00:00:00'' empty_store)"
    by (rule contrapos_nn) simp
  with two show ?thesis by blast
qed

text \<open>
  C9. \<^verbatim>\<open>create_db\<close>, \<^verbatim>\<open>insert_arva_records\<close> and \<^verbatim>\<open>process_records\<close> close their connection
  on every path, in a \<^verbatim>\<open>finally\<close> clause. \<^verbatim>\<open>copy_table\<close> has none: on every input, whether
  the copy succeeds or fails, the connection it opened is still open when it returns.
\<close>

theorem copy_table_leaves_connection_open:
  "\<not> conn_closed (copy_table db source_env target_env st)
   \<and> conn_closed (create_db db now st)
   \<and> conn_closed (insert_arva_records now db env response_data st)
   \<and> conn_closed (process_records api strptime clock db env bearer_token graphql_url st)"
proof -
  have "\<not> conn_closed (copy_table db source_env target_env st)"
    by (simp add: copy_table_def Let_def split: sum.splits)
  moreover have "conn_closed (create_db db now st)"
    by (simp add: create_db_def Let_def)
  moreover have "conn_closed (insert_arva_records now db env response_data st)"
    by (simp add: insert_arva_records_def split: sum.splits prod.splits)
  moreover have "conn_closed (process_records api strptime clock db env bearer_token graphql_url st)"
    by (simp add: process_records_def Let_def split: sum.splits prod.splits)
  ultimately show ?thesis by blast
qed

end
